theory Spec2Isabelle
  imports Main "HOL-Library.Word"
begin

section \<open>JavaScript strings and JSON values\<close>

text \<open>
  A JavaScript string is a sequence of UTF-16 code units. The string literals of the
  source are all ASCII, so they are written as HOL strings and embedded by \<open>ustr\<close>.
\<close>

type_synonym ustring = "16 word list"

definition ustr :: "string \<Rightarrow> ustring" where
  "ustr s = map (\<lambda>c. of_nat (of_char c)) s"

text \<open>
  \<open>String.prototype.trim\<close> removes, at both ends, the code units that ECMAScript calls
  WhiteSpace (TAB, VT, FF, ZWNBSP and the Unicode category Zs) or LineTerminator
  (LF, CR, LS, PS). All of them are single code units.
\<close>

definition is_white_space :: "16 word \<Rightarrow> bool" where
  "is_white_space c \<longleftrightarrow>
     c \<in> {0x0009, 0x000A, 0x000B, 0x000C, 0x000D, 0x0020, 0x00A0, 0x1680,
          0x2000, 0x2001, 0x2002, 0x2003, 0x2004, 0x2005, 0x2006, 0x2007,
          0x2008, 0x2009, 0x200A, 0x2028, 0x2029, 0x202F, 0x205F, 0x3000, 0xFEFF}"

definition trim :: "ustring \<Rightarrow> ustring" where
  "trim s = rev (dropWhile is_white_space (rev (dropWhile is_white_space s)))"

text \<open>
  \<open>s.split(sep)\<close> for a separator of one code unit: the pieces between the
  occurrences of the separator, empty pieces included; the empty string gives one
  empty piece.
\<close>

fun split_str :: "16 word \<Rightarrow> ustring \<Rightarrow> ustring list" where
  "split_str sep [] = [[]]"
| "split_str sep (c # cs) =
     (if c = sep then [] # split_str sep cs
      else (case split_str sep cs of
              [] \<Rightarrow> [[c]]
            | piece # pieces \<Rightarrow> (c # piece) # pieces))"

definition newline :: "16 word" where
  "newline = 0x000A"

text \<open>
  A JSON value as \<open>JSON.parse\<close> and \<open>Response.json\<close> produce it. A number is kept as
  the bit pattern of its IEEE 754 double; an object as the list of its own properties.
  The value \<open>undefined\<close> is not a JSON value: an expression that may be undefined has
  type \<open>json option\<close>, with \<open>None\<close> for undefined.
\<close>

datatype json =
    JNull
  | JBool bool
  | JNum "64 word"
  | JStr ustring
  | JArr "json list"
  | JObj "(ustring \<times> json) list"

section \<open>The component RubricGrader\<close>

text \<open>
  The interface \<open>CriterionAnalysis\<close>. The field \<open>result\<close> is \<open>null\<close> until a reply
  arrives and is then whatever JSON value the reply held; the optional field
  \<open>error\<close> is absent (\<open>None\<close>) until a request fails.
\<close>

record CriterionAnalysis =
  criterion :: ustring
  result :: json
  expanded :: bool
  loading :: bool
  error :: "ustring option"

text \<open>
  The state of the component: the five \<open>useState\<close> cells (prefixed \<open>st_\<close>, as
  \<open>loading\<close> and \<open>error\<close> are also fields of a row), and what the component has done
  to the outside: the bodies of the requests sent to \<open>/api/analyze-rubric\<close>, in
  order, and the calls of \<open>console.error\<close> (the number printed and the message of the
  error caught, when it is an \<open>Error\<close>).
\<close>

record component =
  st_prompt :: ustring
  st_criteria :: ustring
  st_analyses :: "CriterionAnalysis list"
  st_loading :: bool
  st_error :: ustring
  fetches :: "(ustring \<times> ustring) list"
  console :: "(nat \<times> ustring option) list"

definition initial_component :: component where
  "initial_component =
     \<lparr>st_prompt = [], st_criteria = [], st_analyses = [], st_loading = False,
      st_error = [], fetches = [], console = []\<rparr>"

text \<open>\<open>xs.map((x, index) => f(x, index))\<close>.\<close>

definition map_idx :: "('a \<Rightarrow> nat \<Rightarrow> 'b) \<Rightarrow> 'a list \<Rightarrow> 'b list" where
  "map_idx f xs = map (\<lambda>(index, x). f x index) (enumerate 0 xs)"

text \<open>
  How one request of the loop ends. A rejected promise carries the thrown value:
  \<open>Some m\<close> for an \<open>Error\<close> with message \<open>m\<close>, \<open>None\<close> for any other value.
\<close>

datatype fetch_outcome =
    FetchRejected "ustring option"
  | NotOk
  | JsonRejected "ustring option"
  | Resolved json

text \<open>\<open>err instanceof Error ? err.message : 'Failed to analyze criterion'\<close>.\<close>

definition err_message :: "ustring option \<Rightarrow> ustring" where
  "err_message err = (case err of Some m \<Rightarrow> m | None \<Rightarrow> ustr ''Failed to analyze criterion'')"

text \<open>The two functional updates passed to \<open>setAnalyses\<close> in the loop.\<close>

definition set_result :: "nat \<Rightarrow> json \<Rightarrow> CriterionAnalysis list \<Rightarrow> CriterionAnalysis list" where
  "set_result i r prev =
     map_idx (\<lambda>analysis index.
       if index = i then analysis\<lparr>result := r, loading := False\<rparr> else analysis) prev"

definition set_error :: "nat \<Rightarrow> ustring option \<Rightarrow> CriterionAnalysis list \<Rightarrow> CriterionAnalysis list" where
  "set_error i err prev =
     map_idx (\<lambda>analysis index.
       if index = i then analysis\<lparr>error := Some (err_message err), loading := False\<rparr>
       else analysis) prev"

text \<open>The functional update of \<open>toggleExpanded\<close>, and \<open>toggleExpanded\<close> itself.\<close>

definition toggle_row :: "nat \<Rightarrow> CriterionAnalysis list \<Rightarrow> CriterionAnalysis list" where
  "toggle_row index prev =
     map_idx (\<lambda>analysis i.
       if i = index then analysis\<lparr>expanded := \<not> expanded analysis\<rparr> else analysis) prev"

definition toggleExpanded :: "nat \<Rightarrow> component \<Rightarrow> component" where
  "toggleExpanded index w = w\<lparr>st_analyses := toggle_row index (st_analyses w)\<rparr>"

text \<open>
  \<open>analyzeCriteria\<close> up to its loop: the two checks, and on valid input the three
  state updates. It returns the trimmed prompt and the list of criteria that the loop
  will use, or \<open>None\<close> after an early \<open>return\<close>.
\<close>

definition criteriaList :: "ustring \<Rightarrow> ustring list" where
  "criteriaList crit = filter (\<lambda>c. length c > 0) (map trim (split_str newline crit))"

definition initial_row :: "ustring \<Rightarrow> CriterionAnalysis" where
  "initial_row c = \<lparr>criterion = c, result = JNull, expanded = False, loading = True, error = None\<rparr>"

definition analyze_begin :: "component \<Rightarrow> (ustring \<times> ustring list) option \<times> component" where
  "analyze_begin w =
     (if trim (st_prompt w) = [] \<or> trim (st_criteria w) = [] then
        (None, w\<lparr>st_error :=
           ustr ''Please provide both the original prompt and the rubric criteria''\<rparr>)
      else
        let cl = criteriaList (st_criteria w) in
        if length cl = 0 then
          (None, w\<lparr>st_error := ustr ''No valid criteria found''\<rparr>)
        else
          (Some (trim (st_prompt w), cl),
           w\<lparr>st_loading := True, st_error := [], st_analyses := map initial_row cl\<rparr>))"

text \<open>
  One turn of the loop for index \<open>i\<close>: the request is sent, and when it has ended
  as \<open>out\<close> says, the \<open>try\<close> block or the \<open>catch\<close> clause updates the rows.
\<close>

definition send :: "ustring \<Rightarrow> ustring list \<Rightarrow> nat \<Rightarrow> component \<Rightarrow> component" where
  "send p cl i w = w\<lparr>fetches := fetches w @ [(p, cl ! i)]\<rparr>"

text \<open>
  What the \<open>try\<close> block of the loop comes to: \<open>Inl\<close> the value thrown (by the
  rejected \<open>fetch\<close>, by \<open>throw new Error('Failed to analyze criterion')\<close> or by the
  rejected \<open>response.json()\<close>), \<open>Inr\<close> the parsed reply.
\<close>

fun try_block :: "fetch_outcome \<Rightarrow> ustring option + json" where
  "try_block (FetchRejected e) = Inl e"
| "try_block NotOk = Inl (Some (ustr ''Failed to analyze criterion''))"
| "try_block (JsonRejected e) = Inl e"
| "try_block (Resolved r) = Inr r"

definition settle :: "nat \<Rightarrow> fetch_outcome \<Rightarrow> component \<Rightarrow> component" where
  "settle i out w =
     (case try_block out of
        Inr r \<Rightarrow> w\<lparr>st_analyses := set_result i r (st_analyses w)\<rparr>
      | Inl err \<Rightarrow>
          w\<lparr>console := console w @ [(i + 1, err)],
            st_analyses := set_error i err (st_analyses w)\<rparr>)"

text \<open>What the update of \<open>settle\<close> does to the row it picks.\<close>

definition row_after :: "fetch_outcome \<Rightarrow> CriterionAnalysis \<Rightarrow> CriterionAnalysis" where
  "row_after out row =
     (case try_block out of
        Inr r \<Rightarrow> row\<lparr>result := r, loading := False\<rparr>
      | Inl err \<Rightarrow> row\<lparr>error := Some (err_message err), loading := False\<rparr>)"

definition iteration ::
  "ustring \<Rightarrow> ustring list \<Rightarrow> (nat \<Rightarrow> fetch_outcome) \<Rightarrow> nat \<Rightarrow> component \<Rightarrow> component" where
  "iteration p cl net i w = settle i (net i) (send p cl i w)"

text \<open>
  The loop \<open>for (let i = 0; i < criteriaList.length; i++)\<close>, from index \<open>i\<close> on. The
  requests are awaited one after the other; \<open>net i\<close> is how the request of turn
  \<open>i\<close> ends.
\<close>

function loop ::
  "ustring \<Rightarrow> ustring list \<Rightarrow> (nat \<Rightarrow> fetch_outcome) \<Rightarrow> nat \<Rightarrow> component \<Rightarrow> component" where
  "loop p cl net i w =
     (if i < length cl then loop p cl net (Suc i) (iteration p cl net i w) else w)"
  by pat_completeness auto
termination
  by (relation "measure (\<lambda>(p, cl, net, i, w). length cl - i)") auto

declare loop.simps [simp del]

text \<open>A whole call of \<open>analyzeCriteria\<close> that no other event interrupts.\<close>

definition analyzeCriteria :: "(nat \<Rightarrow> fetch_outcome) \<Rightarrow> component \<Rightarrow> component" where
  "analyzeCriteria net w =
     (case analyze_begin w of
        (None, w') \<Rightarrow> w'
      | (Some (p, cl), w') \<Rightarrow> (loop p cl net 0 w')\<lparr>st_loading := False\<rparr>)"

subsection \<open>The component with its events\<close>

text \<open>
  \<open>analyzeCriteria\<close> is an \<open>async\<close> function: at each \<open>await\<close> it gives way to
  whatever else happens on the page. A call that waits for the reply of turn \<open>run_i\<close>
  is kept as a \<open>run\<close>, with the prompt and the criteria its closure holds.
\<close>

record run =
  run_prompt :: ustring
  run_list :: "ustring list"
  run_i :: nat

record page =
  grader :: component
  pending :: "run list"

datatype event =
    Click
  | Settle nat fetch_outcome
  | Toggle nat
  | TypePrompt ustring
  | TypeCriteria ustring

text \<open>
  The loop test for a call that reaches it with index \<open>run_i r\<close>: either the next
  request is sent and the call waits, or the loop is over and \<open>setLoading(false)\<close>
  ends the call.
\<close>

definition loop_test :: "run \<Rightarrow> component \<Rightarrow> component \<times> run list" where
  "loop_test r w =
     (if run_i r < length (run_list r)
      then (send (run_prompt r) (run_list r) (run_i r) w, [r])
      else (w\<lparr>st_loading := False\<rparr>, []))"

text \<open>
  What an event does to the page. \<open>Click\<close> calls \<open>analyzeCriteria\<close>;
  \<open>Settle k out\<close> ends the request that the \<open>k\<close>-th waiting call has sent and runs
  that call up to its next \<open>await\<close>; \<open>Toggle\<close> is a click on a row; the last two
  are the \<open>onChange\<close> handlers of the text areas.
\<close>

fun fire :: "event \<Rightarrow> page \<Rightarrow> page" where
  "fire Click s =
     (case analyze_begin (grader s) of
        (None, w') \<Rightarrow> s\<lparr>grader := w'\<rparr>
      | (Some (p, cl), w') \<Rightarrow>
          (case loop_test \<lparr>run_prompt = p, run_list = cl, run_i = 0\<rparr> w' of
             (w'', rs) \<Rightarrow> \<lparr>grader = w'', pending = pending s @ rs\<rparr>))"
| "fire (Settle k out) s =
     (if k < length (pending s) then
        let r = pending s ! k;
            w' = settle (run_i r) out (grader s)
        in (case loop_test (r\<lparr>run_i := Suc (run_i r)\<rparr>) w' of
              (w'', rs) \<Rightarrow>
                \<lparr>grader = w'', pending = take k (pending s) @ rs @ drop (Suc k) (pending s)\<rparr>)
      else s)"
| "fire (Toggle index) s = s\<lparr>grader := toggleExpanded index (grader s)\<rparr>"
| "fire (TypePrompt t) s = s\<lparr>grader := (grader s)\<lparr>st_prompt := t\<rparr>\<rparr>"
| "fire (TypeCriteria t) s = s\<lparr>grader := (grader s)\<lparr>st_criteria := t\<rparr>\<rparr>"

text \<open>
  The events the rendered page allows: the button carries \<open>disabled={loading}\<close>, a
  row can be clicked only if it is rendered, and only a request that was sent can end.
\<close>

fun enabled :: "event \<Rightarrow> page \<Rightarrow> bool" where
  "enabled Click s = (\<not> st_loading (grader s))"
| "enabled (Settle k out) s = (k < length (pending s))"
| "enabled (Toggle index) s = (index < length (st_analyses (grader s)))"
| "enabled (TypePrompt t) s = True"
| "enabled (TypeCriteria t) s = True"

definition initial_page :: page where
  "initial_page = \<lparr>grader = initial_component, pending = []\<rparr>"

inductive reachable :: "page \<Rightarrow> bool" where
  start: "reachable initial_page"
| step: "reachable s \<Longrightarrow> enabled e s \<Longrightarrow> reachable (fire e s)"

text \<open>
  At most one call of \<open>analyzeCriteria\<close> waits; if one does, the flag \<open>loading\<close> is
  set, the rows are the rows of its criteria, and its index is one of them.
\<close>

definition single_run :: "page \<Rightarrow> bool" where
  "single_run s =
     (case pending s of
        [] \<Rightarrow> True
      | [r] \<Rightarrow>
          st_loading (grader s) \<and>
          map criterion (st_analyses (grader s)) = run_list r \<and>
          run_i r < length (run_list r)
      | _ \<Rightarrow> False)"

text \<open>All events of a list, in order, whether the page allows them or not.\<close>

fun fire_all :: "event list \<Rightarrow> page \<Rightarrow> page" where
  "fire_all [] s = s"
| "fire_all (e # es) s = fire_all es (fire e s)"

section \<open>The route \<open>POST /api/analyze-rubric\<close>\<close>

text \<open>
  What a value does in a condition: \<open>undefined\<close>, \<open>null\<close>, \<open>false\<close>, a zero, a NaN
  and the empty string are falsy. A double is a zero if its 63 low bits are, and a NaN
  if they exceed the bits of infinity.
\<close>

fun truthy :: "json \<Rightarrow> bool" where
  "truthy JNull = False"
| "truthy (JBool b) = b"
| "truthy (JNum w) = (take_bit 63 w \<noteq> 0 \<and> take_bit 63 w \<le> 0x7FF0000000000000)"
| "truthy (JStr s) = (s \<noteq> [])"
| "truthy (JArr xs) = True"
| "truthy (JObj ps) = True"

definition not_js :: "json option \<Rightarrow> bool" where
  "not_js x = (case x of None \<Rightarrow> True | Some v \<Rightarrow> \<not> truthy v)"

text \<open>
  \<open>v.k\<close> for a value \<open>v\<close> other than \<open>null\<close> and a key \<open>k\<close> that no prototype
  defines (the route reads \<open>prompt\<close>, \<open>criterion\<close>, \<open>content\<close>, \<open>text\<close>, \<open>isValid\<close>,
  \<open>promptRequirement\<close> and \<open>errors\<close>): the own property of an object, else
  \<open>undefined\<close>. Reading a property of \<open>null\<close> throws; every caller tests for
  \<open>null\<close> first. \<open>v[0]\<close> is the first element of an array, the first code unit of a
  string, the property \<open>0\<close> of an object.
\<close>

fun property :: "ustring \<Rightarrow> json \<Rightarrow> json option" where
  "property k (JObj ps) = map_of ps k"
| "property k v = None"

fun element0 :: "json \<Rightarrow> json option" where
  "element0 (JArr xs) = (case xs of [] \<Rightarrow> None | x # rest \<Rightarrow> Some x)"
| "element0 (JStr s) = (case s of [] \<Rightarrow> None | c # rest \<Rightarrow> Some (JStr [c]))"
| "element0 (JObj ps) = map_of ps (ustr ''0'')"
| "element0 v = None"

text \<open>
  A template literal converts the values it embeds to strings. For an object that has
  an own property \<open>toString\<close> (a JSON value, so not a function) the conversion
  throws; an array is converted by joining the strings of its elements, so it throws if
  one of them does; every other value has a string.
\<close>

fun to_string_throws :: "json \<Rightarrow> bool" where
  "to_string_throws (JObj ps) = (ustr ''toString'' \<in> set (map fst ps))"
| "to_string_throws (JArr xs) = list_ex to_string_throws xs"
| "to_string_throws v = False"

text \<open>
  What the route meets outside itself. \<open>fetch\<close> to the provider rejects with an
  error message, or gives a response with its status, what \<open>text()\<close> yields and what
  \<open>json()\<close> yields (each \<open>Inl\<close> the message of the error it rejects with). The request to
  the form service rejects or gives a response with a status. The places where the
  engine itself throws are named, since the message of such an error is the engine's.
\<close>

datatype provider_reply =
    ProviderRejected ustring
  | ProviderResponse nat "ustring + ustring" "ustring + json"

datatype logger_reply =
    LoggerRejected ustring
  | LoggerResponse nat

datatype site =
    DestructureNull
  | TemplateToString
  | ContentOfNull
  | TrimNotAFunction
  | IsValidOfNull
  | StatusOutOfRange
  | NullBodyStatus

record env =
  CLAUDE_API_KEY :: "ustring option"
  JSON_parse :: "ustring \<Rightarrow> ustring + json"
  engine_message :: "site \<Rightarrow> ustring"
  request_json :: "ustring + json"
  provider :: provider_reply
  formspree :: logger_reply
  now_iso :: ustring

text \<open>
  A response: its status, and the JSON value that the text of its body denotes.
\<close>

record response =
  status :: nat
  body :: json

datatype printed = PStr ustring | PNum nat | PJson json | PError ustring

datatype effect =
    Console ustring "printed list"
  | FetchProvider ustring json json
  | FetchFormspree json

type_synonym outcome = "response \<times> effect list"

definition after :: "effect list \<Rightarrow> outcome \<Rightarrow> outcome" where
  "after pre out = (fst out, pre @ snd out)"

text \<open>\<open>NextResponse.json({ message: m }, { status: st })\<close>.\<close>

definition message_response :: "ustring \<Rightarrow> nat \<Rightarrow> response" where
  "message_response m st = \<lparr>status = st, body = JObj [(ustr ''message'', JStr m)]\<rparr>"

text \<open>The outer \<open>catch\<close>; every value thrown inside the route is an \<open>Error\<close>.\<close>

definition route_error :: "ustring \<Rightarrow> outcome" where
  "route_error m =
     (message_response m 500, [Console (ustr ''Error in analyze-rubric API:'') [PError m]])"

text \<open>The inner \<open>catch\<close>.\<close>

definition parse_error :: "ustring \<Rightarrow> json \<Rightarrow> outcome" where
  "parse_error m text =
     (message_response (ustr ''Error parsing Claude response'') 500,
      [Console (ustr ''Error parsing Claude response:'') [PError m],
       Console (ustr ''Failed to parse text:'') [PJson text]])"

text \<open>
  \<open>JSON.stringify\<close> writes a value as text, and \<open>NextResponse.json\<close> sends that text
  as the body. \<open>stringified v\<close> is the JSON value that the text for \<open>v\<close> denotes. It is
  \<open>v\<close> itself but for the numbers: an infinity or a NaN (its 63 low bits reach the bits
  of infinity) is written as \<open>null\<close>, and the negative zero as \<open>0\<close>. A number that is
  too large for a double, such as \<open>1e400\<close>, is parsed as an infinity.
\<close>

fun stringified :: "json \<Rightarrow> json" where
  "stringified JNull = JNull"
| "stringified (JBool b) = JBool b"
| "stringified (JNum w) =
     (if 0x7FF0000000000000 \<le> take_bit 63 w then JNull
      else if take_bit 63 w = 0 then JNum 0
      else JNum w)"
| "stringified (JStr s) = JStr s"
| "stringified (JArr xs) = JArr (map stringified xs)"
| "stringified (JObj ps) = JObj (map (\<lambda>(k, v). (k, stringified v)) ps)"

text \<open>
  \<open>JSON.stringify\<close> of an object literal leaves out the properties whose value is
  \<open>undefined\<close>.
\<close>

definition object_of :: "(ustring \<times> json option) list \<Rightarrow> json" where
  "object_of ps = JObj (List.map_filter (\<lambda>(k, v). map_option (Pair k) v) ps)"

definition log_body :: "env \<Rightarrow> json \<Rightarrow> json \<Rightarrow> json \<Rightarrow> json" where
  "log_body e prompt crit evaluation =
     stringified
       (object_of
          [(ustr ''prompt'', Some prompt),
           (ustr ''criterion'', Some crit),
           (ustr ''isValid'', property (ustr ''isValid'') evaluation),
           (ustr ''promptRequirement'', property (ustr ''promptRequirement'') evaluation),
           (ustr ''errors'', property (ustr ''errors'') evaluation),
           (ustr ''timestamp'', Some (JStr (now_iso e)))])"

text \<open>
  The inner \<open>try\<close> block, which ends with \<open>NextResponse.json(evaluation)\<close>: status
  200 and the text of \<open>evaluation\<close> as the body. \<open>text\<close> is truthy here; if it is not a string, calling
  \<open>trim\<close> throws. If the parsed value is \<open>null\<close>, reading \<open>evaluation.isValid\<close> for
  the form service throws before anything is sent. The \<open>catch\<close> handler of the request
  to the form service runs only if that request rejects.
\<close>

definition inner_try :: "env \<Rightarrow> json \<Rightarrow> json \<Rightarrow> json \<Rightarrow> outcome" where
  "inner_try e prompt crit text =
     (case text of
        JStr t \<Rightarrow>
          let cleanedText = trim t in
          after [Console (ustr ''Cleaned text for parsing:'') [PStr cleanedText]]
            (case JSON_parse e cleanedText of
               Inl m \<Rightarrow> parse_error m text
             | Inr evaluation \<Rightarrow>
                 if evaluation = JNull then parse_error (engine_message e IsValidOfNull) text
                 else
                   (\<lparr>status = 200, body = stringified evaluation\<rparr>,
                    FetchFormspree (log_body e prompt crit evaluation) #
                    (case formspree e of
                       LoggerRejected m \<Rightarrow>
                         [Console (ustr ''Error sending to Formspree:'') [PError m]]
                     | LoggerResponse st \<Rightarrow> [])))
      | _ \<Rightarrow> parse_error (engine_message e TrimNotAFunction) text)"

text \<open>
  The test \<open>!data.content || !data.content[0] || !data.content[0].text\<close>:
  \<open>payload_text\<close> is \<open>None\<close> where the test holds, and else the value of
  \<open>data.content[0].text\<close>. Reading \<open>data.content\<close> throws if \<open>data\<close> is \<open>null\<close>.
\<close>

definition bad_format :: "json \<Rightarrow> outcome" where
  "bad_format data =
     (message_response (ustr ''Invalid response format from Claude API'') 500,
      [Console (ustr ''Unexpected Claude API response format:'') [PJson data]])"

definition payload_text :: "json \<Rightarrow> json option" where
  "payload_text data =
     (case property (ustr ''content'') data of
        None \<Rightarrow> None
      | Some content \<Rightarrow>
          if \<not> truthy content then None
          else
            (case element0 content of
               None \<Rightarrow> None
             | Some first \<Rightarrow>
                 if \<not> truthy first then None
                 else
                   (case property (ustr ''text'') first of
                      None \<Rightarrow> None
                    | Some text \<Rightarrow> if \<not> truthy text then None else Some text)))"

definition read_reply :: "env \<Rightarrow> json \<Rightarrow> json \<Rightarrow> json \<Rightarrow> outcome" where
  "read_reply e prompt crit data =
     (if data = JNull then route_error (engine_message e ContentOfNull)
      else
        (case payload_text data of
           None \<Rightarrow> bad_format data
         | Some text \<Rightarrow> inner_try e prompt crit text))"

text \<open>
  The branch \<open>!anthropicResponse.ok\<close>. A \<open>Response\<close> cannot be made with a status
  outside 200 to 599, nor with a body and the status 304: the constructor throws, and
  the outer \<open>catch\<close> answers.
\<close>

definition upstream_error :: "env \<Rightarrow> nat \<Rightarrow> ustring + ustring \<Rightarrow> outcome" where
  "upstream_error e st txt =
     after [Console (ustr ''Claude API error status:'') [PNum st]]
       (case txt of
          Inl m \<Rightarrow> route_error m
        | Inr errorText \<Rightarrow>
            after [Console (ustr ''Claude API error text:'') [PStr errorText]]
              (if st < 200 \<or> 599 < st then route_error (engine_message e StatusOutOfRange)
               else if st = 304 then route_error (engine_message e NullBodyStatus)
               else (message_response (ustr ''Error from Claude API: '' @ errorText) st, [])))"

definition response_ok :: "nat \<Rightarrow> bool" where
  "response_ok st \<longleftrightarrow> 200 \<le> st \<and> st \<le> 299"

text \<open>
  The outer \<open>try\<close> block. The body of the request to the provider embeds \<open>prompt\<close>
  and \<open>criterion\<close> in a template literal; the effect \<open>FetchProvider\<close> keeps the key
  and the two values.
\<close>

definition outer_try :: "env \<Rightarrow> ustring \<Rightarrow> outcome" where
  "outer_try e key =
     (case request_json e of
        Inl m \<Rightarrow> route_error m
      | Inr b \<Rightarrow>
          if b = JNull then route_error (engine_message e DestructureNull)
          else
            (case (property (ustr ''prompt'') b, property (ustr ''criterion'') b) of
               (Some prompt, Some crit) \<Rightarrow>
                 if \<not> truthy prompt \<or> \<not> truthy crit then
                   (message_response (ustr ''Both prompt and criterion are required'') 400, [])
                 else if to_string_throws prompt \<or> to_string_throws crit then
                   route_error (engine_message e TemplateToString)
                 else
                   after [FetchProvider key prompt crit]
                     (case provider e of
                        ProviderRejected m \<Rightarrow> route_error m
                      | ProviderResponse st txt js \<Rightarrow>
                          if \<not> response_ok st then upstream_error e st txt
                          else
                            (case js of
                               Inl m \<Rightarrow> route_error m
                             | Inr data \<Rightarrow> read_reply e prompt crit data))
             | _ \<Rightarrow>
                 (message_response (ustr ''Both prompt and criterion are required'') 400, [])))"

definition POST :: "env \<Rightarrow> outcome" where
  "POST e =
     (case CLAUDE_API_KEY e of
        None \<Rightarrow>
          (message_response (ustr ''Server configuration error: API key not found'') 500,
           [Console (ustr ''CLAUDE_API_KEY is not defined'') []])
      | Some key \<Rightarrow>
          if key = [] then
            (message_response (ustr ''Server configuration error: API key not found'') 500,
             [Console (ustr ''CLAUDE_API_KEY is not defined'') []])
          else outer_try e key)"

text \<open>The requests that leave the process.\<close>

fun outbound :: "effect \<Rightarrow> bool" where
  "outbound (Console what args) = False"
| "outbound (FetchProvider key prompt crit) = True"
| "outbound (FetchFormspree b) = True"

subsection \<open>The wire shape of a verdict, as the specification words it\<close>

text \<open>
  An object with exactly the fields \<open>isValid\<close> (boolean), \<open>promptRequirement\<close>
  (string), \<open>errors\<close> (array of objects with exactly \<open>rule\<close> and \<open>explanation\<close>, both
  strings), \<open>suggestion\<close> (string) and \<open>reasoning\<close> (string).
\<close>

definition is_boolean :: "json \<Rightarrow> bool" where
  "is_boolean v = (case v of JBool b \<Rightarrow> True | _ \<Rightarrow> False)"

definition is_string :: "json \<Rightarrow> bool" where
  "is_string v = (case v of JStr s \<Rightarrow> True | _ \<Rightarrow> False)"

definition has_exactly :: "(ustring \<times> json) list \<Rightarrow> (ustring \<times> (json \<Rightarrow> bool)) list \<Rightarrow> bool" where
  "has_exactly ps fs \<longleftrightarrow>
     distinct (map fst ps) \<and> set (map fst ps) = set (map fst fs) \<and>
     list_all (\<lambda>(k, ok). case map_of ps k of Some v \<Rightarrow> ok v | None \<Rightarrow> False) fs"

definition is_rubric_error :: "json \<Rightarrow> bool" where
  "is_rubric_error v =
     (case v of
        JObj ps \<Rightarrow> has_exactly ps [(ustr ''rule'', is_string), (ustr ''explanation'', is_string)]
      | _ \<Rightarrow> False)"

definition is_error_array :: "json \<Rightarrow> bool" where
  "is_error_array v = (case v of JArr xs \<Rightarrow> list_all is_rubric_error xs | _ \<Rightarrow> False)"

definition verdict_shape :: "json \<Rightarrow> bool" where
  "verdict_shape v =
     (case v of
        JObj ps \<Rightarrow>
          has_exactly ps
            [(ustr ''isValid'', is_boolean),
             (ustr ''promptRequirement'', is_string),
             (ustr ''errors'', is_error_array),
             (ustr ''suggestion'', is_string),
             (ustr ''reasoning'', is_string)]
      | _ \<Rightarrow> False)"

section \<open>Sample inputs\<close>

text \<open>
  A page state with three criteria, one of them twice, between blank lines and blanks;
  a state whose criteria are blank; three rows in different states; and a network on
  which the first request is rejected, the second is answered with a status that is
  not a success, and the third is answered with a body that is not JSON.
\<close>

definition sample_component :: component where
  "sample_component =
     initial_component
       \<lparr>st_prompt := ustr '' List movies '',
        st_criteria :=
          ustr '' a'' @ [newline, newline] @ ustr ''b  '' @ [newline] @ ustr ''a''\<rparr>"

definition blank_component :: component where
  "blank_component =
     initial_component\<lparr>st_prompt := ustr ''List movies'', st_criteria := [0x20, newline, 0x09]\<rparr>"

definition sample_rows :: "CriterionAnalysis list" where
  "sample_rows =
     [\<lparr>criterion = ustr ''a'', result = JBool True, expanded = True, loading = False, error = None\<rparr>,
      \<lparr>criterion = ustr ''b'', result = JNull, expanded = False, loading = False,
        error = Some (ustr ''Failed to analyze criterion'')\<rparr>,
      \<lparr>criterion = ustr ''a'', result = JNull, expanded = False, loading = True, error = None\<rparr>]"

definition failing_net :: "nat \<Rightarrow> fetch_outcome" where
  "failing_net j =
     (if j = 0 then FetchRejected (Some (ustr ''Failed to fetch''))
      else if j = 1 then NotOk
      else JsonRejected (Some (ustr ''Unexpected token'')))"

text \<open>
  Two pages. On the first a call of \<open>analyzeCriteria\<close> waits for its first reply. On
  the second that reply has arrived, which ends the run, and the button has been
  clicked again: a second run waits for its first reply.
\<close>

definition running_page :: page where
  "running_page =
     fire_all [TypePrompt (ustr ''p''), TypeCriteria (ustr ''a''), Click] initial_page"

definition rerun_page :: page where
  "rerun_page =
     fire_all [TypePrompt (ustr ''p''), TypeCriteria (ustr ''a''), Click,
               Settle 0 (Resolved (JBool True)), Click] initial_page"

text \<open>
  Two environments of the route. In both the provider answers 200 with one text block.
  In the first the text is \<open>{}\<close> between blanks, which \<open>JSON.parse\<close> reads as the
  empty object; in the second it is a verdict between line feeds. \<open>JSON_parse\<close> of an
  environment is only given on the text that the environment holds.
\<close>

definition shapeless_env :: env where
  "shapeless_env =
     \<lparr>CLAUDE_API_KEY = Some (ustr ''key''),
      JSON_parse = (\<lambda>t. if t = ustr ''{}'' then Inr (JObj []) else Inl (ustr ''SyntaxError'')),
      engine_message = (\<lambda>s. ustr ''TypeError''),
      request_json = Inr (JObj [(ustr ''prompt'', JStr (ustr ''p'')), (ustr ''criterion'', JStr (ustr ''c''))]),
      provider = ProviderResponse 200 (Inr [])
        (Inr (JObj [(ustr ''content'',
                     JArr [JObj [(ustr ''type'', JStr (ustr ''text'')),
                                 (ustr ''text'', JStr (ustr '' {} ''))]])])),
      formspree = LoggerResponse 200,
      now_iso = ustr ''2025-01-01T00:00:00.000Z''\<rparr>"

definition quoted :: "string \<Rightarrow> ustring" where
  "quoted s = [0x22] @ ustr s @ [0x22]"

definition verdict_text :: ustring where
  "verdict_text =
     ustr ''{'' @ quoted ''isValid'' @ ustr '':true,'' @
     quoted ''promptRequirement'' @ ustr '':'' @ quoted ''bold each category'' @ ustr '','' @
     quoted ''errors'' @ ustr '':[],'' @
     quoted ''suggestion'' @ ustr '':'' @ quoted [] @ ustr '','' @
     quoted ''reasoning'' @ ustr '':'' @ quoted [] @ ustr ''}''"

definition verdict_value :: json where
  "verdict_value =
     JObj [(ustr ''isValid'', JBool True),
           (ustr ''promptRequirement'', JStr (ustr ''bold each category'')),
           (ustr ''errors'', JArr []),
           (ustr ''suggestion'', JStr []),
           (ustr ''reasoning'', JStr [])]"

definition verdict_env :: env where
  "verdict_env =
     \<lparr>CLAUDE_API_KEY = Some (ustr ''key''),
      JSON_parse = (\<lambda>t. if t = verdict_text then Inr verdict_value else Inl (ustr ''SyntaxError'')),
      engine_message = (\<lambda>s. ustr ''TypeError''),
      request_json = Inr (JObj [(ustr ''prompt'', JStr (ustr ''p'')), (ustr ''criterion'', JStr (ustr ''c''))]),
      provider = ProviderResponse 200 (Inr [])
        (Inr (JObj [(ustr ''content'',
                     JArr [JObj [(ustr ''type'', JStr (ustr ''text'')),
                                 (ustr ''text'', JStr (0x0A # verdict_text @ [0x0A]))]])])),
      formspree = LoggerRejected (ustr ''fetch failed''),
      now_iso = ustr ''2025-01-01T00:00:00.000Z''\<rparr>"

section \<open>Lemmas about strings, rows and the loop\<close>

lemma dropWhile_all_white:
  "(\<forall>c\<in>set (dropWhile is_white_space s). is_white_space c) \<longleftrightarrow> (\<forall>c\<in>set s. is_white_space c)"
proof
  assume all: "\<forall>c\<in>set (dropWhile is_white_space s). is_white_space c"
  have "dropWhile is_white_space s = []"
  proof (cases "dropWhile is_white_space s")
    case (Cons c cs)
    with hd_dropWhile [of is_white_space s] all show ?thesis by auto
  qed simp
  then show "\<forall>c\<in>set s. is_white_space c" by (simp add: dropWhile_eq_Nil_conv)
next
  assume "\<forall>c\<in>set s. is_white_space c"
  then show "\<forall>c\<in>set (dropWhile is_white_space s). is_white_space c"
    by (auto dest: set_dropWhileD)
qed

lemma trim_Nil_iff: "trim s = [] \<longleftrightarrow> (\<forall>c\<in>set s. is_white_space c)"
proof -
  have "trim s = [] \<longleftrightarrow> (\<forall>c\<in>set (rev (dropWhile is_white_space s)). is_white_space c)"
    unfolding trim_def rev_is_Nil_conv by (rule dropWhile_eq_Nil_conv)
  then show ?thesis by (simp only: set_rev dropWhile_all_white)
qed

lemma split_str_not_Nil: "split_str sep s \<noteq> []"
  by (induction s) (auto split: list.splits)

lemma set_split_str: "(\<Union>p\<in>set (split_str sep s). set p) = set s - {sep}"
proof (induction s)
  case Nil
  show ?case by simp
next
  case (Cons c cs)
  then show ?case
    using split_str_not_Nil [of sep cs]
    by (cases "split_str sep cs") auto
qed

lemma white_space_newline: "is_white_space newline"
  by (simp add: is_white_space_def newline_def)

lemma criteriaList_Nil_iff: "criteriaList s = [] \<longleftrightarrow> trim s = []"
proof -
  have "criteriaList s = [] \<longleftrightarrow> (\<forall>p\<in>set (split_str newline s). trim p = [])"
    by (auto simp: criteriaList_def filter_empty_conv)
  also have "\<dots> \<longleftrightarrow> (\<forall>c\<in>(\<Union>p\<in>set (split_str newline s). set p). is_white_space c)"
    by (auto simp: trim_Nil_iff)
  also have "\<dots> \<longleftrightarrow> (\<forall>c\<in>set s. is_white_space c)"
    unfolding set_split_str using white_space_newline by auto
  finally show ?thesis by (simp add: trim_Nil_iff)
qed


lemma length_map_idx: "length (map_idx f xs) = length xs"
  by (simp add: map_idx_def)

lemma nth_map_idx: "i < length xs \<Longrightarrow> map_idx f xs ! i = f (xs ! i) i"
  by (simp add: map_idx_def nth_enumerate_eq)

lemma map_idx_update:
  "map_idx (\<lambda>x index. if index = i then g x else x) xs = (if i < length xs then xs[i := g (xs ! i)] else xs)"
  by (rule nth_equalityI) (auto simp: length_map_idx nth_map_idx nth_list_update)

lemma toggle_row_eq:
  "toggle_row i rows = (if i < length rows then rows[i := (rows ! i)\<lparr>expanded := \<not> expanded (rows ! i)\<rparr>] else rows)"
  unfolding toggle_row_def by (rule map_idx_update)

lemma set_error_eq:
  "set_error i err rows = (if i < length rows then rows[i := (rows ! i)\<lparr>error := Some (err_message err), loading := False\<rparr>] else rows)"
  unfolding set_error_def by (rule map_idx_update)

lemma set_result_eq:
  "set_result i r rows = (if i < length rows then rows[i := (rows ! i)\<lparr>result := r, loading := False\<rparr>] else rows)"
  unfolding set_result_def by (rule map_idx_update)

lemma toggle_row_twice: "toggle_row i (toggle_row i rows) = rows"
  by (rule nth_equalityI) (auto simp: toggle_row_eq nth_list_update)


lemma row_after_cases:
  "row_after out row =
      (case out of
         Resolved r \<Rightarrow> row\<lparr>result := r, loading := False\<rparr>
       | NotOk \<Rightarrow>
           row\<lparr>error := Some (ustr ''Failed to analyze criterion''), loading := False\<rparr>
       | FetchRejected e \<Rightarrow>
           row\<lparr>error := Some (case e of Some m \<Rightarrow> m
                               | None \<Rightarrow> ustr ''Failed to analyze criterion''),
               loading := False\<rparr>
       | JsonRejected e \<Rightarrow>
           row\<lparr>error := Some (case e of Some m \<Rightarrow> m
                               | None \<Rightarrow> ustr ''Failed to analyze criterion''),
               loading := False\<rparr>)"
  by (cases out) (simp_all add: row_after_def err_message_def)

lemma st_analyses_settle:
  "st_analyses (settle i out w) =
     (if i < length (st_analyses w)
      then (st_analyses w)[i := row_after out (st_analyses w ! i)] else st_analyses w)"
  by (cases "try_block out") (simp_all add: settle_def row_after_def set_result_eq set_error_eq)

lemma st_analyses_iteration:
  "st_analyses (iteration p cl net i w) =
     (if i < length (st_analyses w)
      then (st_analyses w)[i := row_after (net i) (st_analyses w ! i)] else st_analyses w)"
  by (simp add: iteration_def st_analyses_settle send_def)

lemma length_st_analyses_iteration:
  "length (st_analyses (iteration p cl net i w)) = length (st_analyses w)"
  by (simp add: st_analyses_iteration)

lemma fetches_iteration: "fetches (iteration p cl net i w) = fetches w @ [(p, cl ! i)]"
  by (cases "try_block (net i)") (simp_all add: iteration_def settle_def send_def)

lemma frame_iteration:
  "st_prompt (iteration p cl net i w) = st_prompt w"
  "st_criteria (iteration p cl net i w) = st_criteria w"
  "st_loading (iteration p cl net i w) = st_loading w"
  "st_error (iteration p cl net i w) = st_error w"
  by (cases "try_block (net i)"; simp add: iteration_def settle_def send_def)+

lemma fetches_loop: "fetches (loop p cl net i w) = fetches w @ map (Pair p) (drop i cl)"
proof (induction p cl net i w rule: loop.induct)
  case (1 p cl net i w)
  show ?case
  proof (cases "i < length cl")
    case True
    then have "drop i cl = cl ! i # drop (Suc i) cl"
      by (simp add: Cons_nth_drop_Suc)
    with True "1.IH" show ?thesis
      by (subst loop.simps) (simp add: fetches_iteration)
  next
    case False
    then show ?thesis by (subst loop.simps) simp
  qed
qed

lemma frame_loop:
  "st_prompt (loop p cl net i w) = st_prompt w \<and>
   st_criteria (loop p cl net i w) = st_criteria w \<and>
   st_loading (loop p cl net i w) = st_loading w \<and>
   st_error (loop p cl net i w) = st_error w"
proof (induction p cl net i w rule: loop.induct)
  case (1 p cl net i w)
  then show ?case
    by (subst (1 2 3 4) loop.simps) (simp add: frame_iteration)
qed

lemma st_analyses_loop:
  "st_analyses (loop p cl net i w) =
     map_idx (\<lambda>row j. if i \<le> j \<and> j < length cl then row_after (net j) row else row) (st_analyses w)"
proof (induction p cl net i w rule: loop.induct)
  case (1 p cl net i w)
  show ?case
  proof (cases "i < length cl")
    case True
    have "st_analyses (loop p cl net i w) = st_analyses (loop p cl net (Suc i) (iteration p cl net i w))"
      using True by (subst loop.simps) simp
    also have "\<dots> = map_idx (\<lambda>row j. if Suc i \<le> j \<and> j < length cl then row_after (net j) row else row)
                        (st_analyses (iteration p cl net i w))"
      using True by (rule "1.IH")
    also have "\<dots> = map_idx (\<lambda>row j. if i \<le> j \<and> j < length cl then row_after (net j) row else row) (st_analyses w)"
    proof (rule nth_equalityI)
      show "length (map_idx (\<lambda>row j. if Suc i \<le> j \<and> j < length cl then row_after (net j) row else row)
                     (st_analyses (iteration p cl net i w))) =
            length (map_idx (\<lambda>row j. if i \<le> j \<and> j < length cl then row_after (net j) row else row)
                     (st_analyses w))"
        by (simp add: length_map_idx length_st_analyses_iteration)
    next
      fix j
      assume "j < length (map_idx (\<lambda>row j. if Suc i \<le> j \<and> j < length cl then row_after (net j) row else row)
                     (st_analyses (iteration p cl net i w)))"
      then have j: "j < length (st_analyses w)"
        by (simp add: length_map_idx length_st_analyses_iteration)
      then have j': "j < length (st_analyses (iteration p cl net i w))"
        by (simp add: length_st_analyses_iteration)
      show "map_idx (\<lambda>row j. if Suc i \<le> j \<and> j < length cl then row_after (net j) row else row)
              (st_analyses (iteration p cl net i w)) ! j =
            map_idx (\<lambda>row j. if i \<le> j \<and> j < length cl then row_after (net j) row else row)
              (st_analyses w) ! j"
      proof (cases "j = i")
        case True
        with j \<open>i < length cl\<close> show ?thesis
          by (simp add: nth_map_idx st_analyses_iteration)
      next
        case False
        then have "Suc i \<le> j \<longleftrightarrow> i \<le> j" by arith
        with False j show ?thesis
          by (simp add: nth_map_idx st_analyses_iteration)
      qed
    qed
    finally show ?thesis .
  next
    case False
    then show ?thesis
      by (subst loop.simps) (auto intro!: nth_equalityI simp: length_map_idx nth_map_idx)
  qed
qed

subsection \<open>The checks of \<open>analyzeCriteria\<close>\<close>

lemma analyze_begin_invalid:
  assumes "trim (st_prompt w) = [] \<or> trim (st_criteria w) = [] \<or> criteriaList (st_criteria w) = []"
  shows "analyze_begin w =
           (None, w\<lparr>st_error :=
              if trim (st_prompt w) = [] \<or> trim (st_criteria w) = []
              then ustr ''Please provide both the original prompt and the rubric criteria''
              else ustr ''No valid criteria found''\<rparr>)"
  using assms by (auto simp: analyze_begin_def Let_def)

lemma analyze_begin_valid:
  assumes "trim (st_prompt w) \<noteq> []" and "criteriaList (st_criteria w) \<noteq> []"
  shows "analyze_begin w =
           (Some (trim (st_prompt w), criteriaList (st_criteria w)),
            w\<lparr>st_loading := True, st_error := [],
              st_analyses := map initial_row (criteriaList (st_criteria w))\<rparr>)"
  using assms by (auto simp: analyze_begin_def Let_def criteriaList_Nil_iff)

lemma analyzeCriteria_valid:
  assumes "trim (st_prompt w) \<noteq> []" and "criteriaList (st_criteria w) \<noteq> []"
  shows "analyzeCriteria net w =
           (loop (trim (st_prompt w)) (criteriaList (st_criteria w)) net 0
              (w\<lparr>st_loading := True, st_error := [],
                 st_analyses := map initial_row (criteriaList (st_criteria w))\<rparr>))
           \<lparr>st_loading := False\<rparr>"
  by (simp add: analyzeCriteria_def analyze_begin_valid [OF assms])

lemma analyzeCriteria_invalid:
  assumes "trim (st_prompt w) = [] \<or> trim (st_criteria w) = [] \<or> criteriaList (st_criteria w) = []"
  shows "analyzeCriteria net w =
           w\<lparr>st_error :=
              if trim (st_prompt w) = [] \<or> trim (st_criteria w) = []
              then ustr ''Please provide both the original prompt and the rubric criteria''
              else ustr ''No valid criteria found''\<rparr>"
  by (simp add: analyzeCriteria_def analyze_begin_invalid [OF assms])

lemma sample_list: "criteriaList (st_criteria sample_component) = [ustr ''a'', ustr ''b'', ustr ''a'']"
  by (simp add: sample_component_def initial_component_def criteriaList_def trim_def
      is_white_space_def newline_def ustr_def)

lemma sample_prompt: "trim (st_prompt sample_component) = ustr ''List movies''"
  by (simp add: sample_component_def initial_component_def trim_def
      is_white_space_def newline_def ustr_def)

subsection \<open>The criterion of a row never changes\<close>

lemma criterion_row_after: "criterion (row_after out row) = criterion row"
  by (cases "try_block out") (simp_all add: row_after_def)

lemma map_criterion_initial_row: "map criterion (map initial_row cl) = cl"
  by (induction cl) (simp_all add: initial_row_def)

lemma map_criterion_map_idx:
  "(\<And>row j. criterion (f row j) = criterion row) \<Longrightarrow> map criterion (map_idx f rows) = map criterion rows"
  by (rule nth_equalityI) (simp_all add: length_map_idx nth_map_idx)

lemma map_criterion_loop:
  "map criterion (st_analyses (loop p cl net i w)) = map criterion (st_analyses w)"
  unfolding st_analyses_loop by (rule map_criterion_map_idx) (simp add: criterion_row_after)

lemma settle_keeps:
  "map criterion (st_analyses (settle i out w)) = map criterion (st_analyses w)"
  "st_loading (settle i out w) = st_loading w"
proof -
  show "map criterion (st_analyses (settle i out w)) = map criterion (st_analyses w)"
    by (simp add: st_analyses_settle map_update criterion_row_after list_update_same_conv)
  show "st_loading (settle i out w) = st_loading w"
    by (cases "try_block out") (simp_all add: settle_def)
qed

lemma toggle_keeps:
  "map criterion (st_analyses (toggleExpanded i w)) = map criterion (st_analyses w)"
  "st_loading (toggleExpanded i w) = st_loading w"
  by (simp_all add: toggleExpanded_def toggle_row_eq map_update list_update_same_conv)

lemma send_keeps:
  "st_analyses (send p cl i w) = st_analyses w"
  "st_loading (send p cl i w) = st_loading w"
  by (simp_all add: send_def)

subsection \<open>A call of \<open>analyzeCriteria\<close> as a sequence of events\<close>

text \<open>
  The function \<open>analyzeCriteria\<close> above is what the events of the page do when
  nothing comes between the requests of one call: the click, then one reply after the
  other.
\<close>

lemma fire_settles:
  assumes "i < length cl"
  shows "fire_all (map (\<lambda>j. Settle 0 (net j)) [i..<length cl])
           \<lparr>grader = send p cl i w, pending = [\<lparr>run_prompt = p, run_list = cl, run_i = i\<rparr>]\<rparr>
         = \<lparr>grader = (loop p cl net i w)\<lparr>st_loading := False\<rparr>, pending = []\<rparr>"
  using assms
proof (induction p cl net i w rule: loop.induct)
  case (1 p cl net i w)
  from "1.prems" have upt: "[i..<length cl] = i # [Suc i..<length cl]"
    by (simp add: upt_conv_Cons)
  have unroll: "loop p cl net i w = loop p cl net (Suc i) (iteration p cl net i w)"
    using "1.prems" by (subst loop.simps) simp
  show ?case
  proof (cases "Suc i < length cl")
    case True
    have "fire (Settle 0 (net i))
            \<lparr>grader = send p cl i w, pending = [\<lparr>run_prompt = p, run_list = cl, run_i = i\<rparr>]\<rparr>
          = \<lparr>grader = send p cl (Suc i) (iteration p cl net i w),
             pending = [\<lparr>run_prompt = p, run_list = cl, run_i = Suc i\<rparr>]\<rparr>"
      using True by (simp add: loop_test_def iteration_def)
    with "1.IH" [OF "1.prems" True] show ?thesis
      by (simp add: upt unroll)
  next
    case False
    then have none_left: "[Suc i..<length cl] = []" by simp
    have stop: "loop p cl net (Suc i) (iteration p cl net i w) = iteration p cl net i w"
      using False by (subst loop.simps) simp
    have "fire (Settle 0 (net i))
            \<lparr>grader = send p cl i w, pending = [\<lparr>run_prompt = p, run_list = cl, run_i = i\<rparr>]\<rparr>
          = \<lparr>grader = (iteration p cl net i w)\<lparr>st_loading := False\<rparr>, pending = []\<rparr>"
      using False by (simp add: loop_test_def iteration_def)
    then show ?thesis
      by (simp add: upt none_left unroll stop)
  qed
qed

lemma fire_settles_idle:
  "pending s = [] \<Longrightarrow> fire_all (map (\<lambda>j. Settle k (net j)) js) s = s"
  by (induction js) simp_all

lemma analyzeCriteria_as_events:
  "fire_all (Click # map (\<lambda>j. Settle 0 (net j)) [0..<length (criteriaList (st_criteria w))])
     \<lparr>grader = w, pending = []\<rparr>
   = \<lparr>grader = analyzeCriteria net w, pending = []\<rparr>"
proof (cases "trim (st_prompt w) = [] \<or> trim (st_criteria w) = [] \<or> criteriaList (st_criteria w) = []")
  case True
  then show ?thesis
    by (simp add: analyze_begin_invalid analyzeCriteria_invalid fire_settles_idle)
next
  case False
  then have v: "trim (st_prompt w) \<noteq> []" "criteriaList (st_criteria w) \<noteq> []"
    by simp_all
  then have pos: "0 < length (criteriaList (st_criteria w))"
    by simp
  show ?thesis
    using pos
    by (simp add: analyze_begin_valid [OF v] analyzeCriteria_valid [OF v] loop_test_def
        fire_settles [OF pos])
qed

lemma running_page_eq:
  "running_page =
     \<lparr>grader = initial_component
        \<lparr>st_prompt := ustr ''p'', st_criteria := ustr ''a'', st_loading := True,
          st_analyses := [initial_row (ustr ''a'')], fetches := [(ustr ''p'', ustr ''a'')]\<rparr>,
      pending = [\<lparr>run_prompt = ustr ''p'', run_list = [ustr ''a''], run_i = 0\<rparr>]\<rparr>"
  by (simp add: running_page_def initial_page_def initial_component_def analyze_begin_def
      loop_test_def send_def ustr_def trim_def is_white_space_def criteriaList_def newline_def Let_def)

lemma single_run_fire:
  assumes "single_run s" and "enabled e s"
  shows "single_run (fire e s)"
proof (cases e)
  case Click
  with assms(2) have idle: "\<not> st_loading (grader s)" by simp
  with assms(1) have none: "pending s = []"
    by (auto simp: single_run_def split: list.splits)
  show ?thesis
  proof (cases "trim (st_prompt (grader s)) = [] \<or> trim (st_criteria (grader s)) = []
                \<or> criteriaList (st_criteria (grader s)) = []")
    case True
    then show ?thesis
      using none Click by (simp add: analyze_begin_invalid single_run_def)
  next
    case False
    then have "trim (st_prompt (grader s)) \<noteq> []" "criteriaList (st_criteria (grader s)) \<noteq> []"
      by simp_all
    then show ?thesis
      using none Click
      by (simp add: analyze_begin_valid loop_test_def single_run_def send_keeps
          map_criterion_initial_row [unfolded map_map])
  qed
next
  case (Settle k out)
  with assms(2) have k: "k < length (pending s)" by simp
  with assms(1) obtain r where r: "pending s = [r]" "k = 0" "st_loading (grader s)"
      "map criterion (st_analyses (grader s)) = run_list r" "run_i r < length (run_list r)"
    by (auto simp: single_run_def split: list.splits)
  show ?thesis
    using r Settle
    by (simp add: loop_test_def single_run_def Let_def settle_keeps send_keeps)
next
  case (Toggle i)
  with assms(1) show ?thesis
    by (auto simp: single_run_def toggle_keeps split: list.splits)
next
  case (TypePrompt t)
  with assms(1) show ?thesis
    by (auto simp: single_run_def split: list.splits)
next
  case (TypeCriteria t)
  with assms(1) show ?thesis
    by (auto simp: single_run_def split: list.splits)
qed

lemma reachable_single_run: "reachable s \<Longrightarrow> single_run s"
proof (induction rule: reachable.induct)
  case start
  show ?case by (simp add: single_run_def initial_page_def)
next
  case (step s e)
  then show ?case by (simp add: single_run_fire)
qed

lemma rerun_page_eq:
  "rerun_page =
     \<lparr>grader = initial_component
        \<lparr>st_prompt := ustr ''p'', st_criteria := ustr ''a'', st_loading := True,
          st_analyses := [initial_row (ustr ''a'')],
          fetches := [(ustr ''p'', ustr ''a''), (ustr ''p'', ustr ''a'')]\<rparr>,
      pending = [\<lparr>run_prompt = ustr ''p'', run_list = [ustr ''a''], run_i = 0\<rparr>]\<rparr>"
  by (simp add: rerun_page_def initial_page_def initial_component_def analyze_begin_def
      loop_test_def send_def settle_def set_result_def map_idx_def
      ustr_def trim_def is_white_space_def criteriaList_def newline_def Let_def)

lemma reachable_running_page: "reachable running_page"
proof -
  have "reachable (fire (TypePrompt (ustr ''p'')) initial_page)"
    by (rule reachable.step [OF reachable.start]) simp
  then have "reachable (fire (TypeCriteria (ustr ''a''))
                         (fire (TypePrompt (ustr ''p'')) initial_page))"
    by (rule reachable.step) simp
  then have "reachable (fire Click (fire (TypeCriteria (ustr ''a''))
                                     (fire (TypePrompt (ustr ''p'')) initial_page)))"
    by (rule reachable.step) (simp add: initial_page_def initial_component_def)
  then show ?thesis
    by (simp add: running_page_def)
qed

lemma reachable_rerun_page: "reachable rerun_page"
proof -
  have "reachable (fire (Settle 0 (Resolved (JBool True))) running_page)"
    by (rule reachable.step [OF reachable_running_page]) (simp add: running_page_eq)
  then have "reachable (fire Click (fire (Settle 0 (Resolved (JBool True))) running_page))"
    by (rule reachable.step)
       (simp add: running_page_eq loop_test_def settle_def Let_def)
  then show ?thesis
    by (simp add: rerun_page_def running_page_def)
qed

text \<open>
  A reply that arrives for the \<open>k\<close>-th waiting call is applied to the row that has the
  index of its request, whatever the rows on the page are.
\<close>

lemma settle_by_index:
  assumes "k < length (pending s)"
  shows "st_analyses (grader (fire (Settle k out) s)) =
           st_analyses (settle (run_i (pending s ! k)) out (grader s))"
  using assms by (simp add: loop_test_def Let_def send_def)

subsection \<open>The route\<close>

lemma payload_text_not_null: "payload_text data = Some text \<Longrightarrow> data \<noteq> JNull"
  by (auto simp: payload_text_def)

lemma property_not_null: "property k b = Some v \<Longrightarrow> b \<noteq> JNull"
  by auto

text \<open>
  Writing a value as text changes numbers only, and the shape of a verdict asks for no
  number: a value has that shape if and only if the value sent for it has.
\<close>

lemma stringified_numbers:
  "stringified (JNum 0x7FF0000000000000) = JNull"
  "stringified (JNum 0x8000000000000000) = JNum 0"
  "stringified (JNum 0x3FF0000000000000) = JNum 0x3FF0000000000000"
  by simp_all

lemma is_string_stringified: "is_string (stringified v) = is_string v"
  by (cases v) (simp_all add: is_string_def)

lemma is_boolean_stringified: "is_boolean (stringified v) = is_boolean v"
  by (cases v) (simp_all add: is_boolean_def)

lemma has_exactly_map:
  assumes "\<And>k ok v. (k, ok) \<in> set fs \<Longrightarrow> ok (f v) = ok v"
  shows "has_exactly (map (\<lambda>(k, v). (k, f v)) ps) fs = has_exactly ps fs"
proof -
  have keys: "map fst (map (\<lambda>(k, v). (k, f v)) ps) = map fst ps"
    by (induction ps) auto
  have look: "map_of (map (\<lambda>(k, v). (k, f v)) ps) k = map_option f (map_of ps k)" for k
    by (induction ps) auto
  have "list_all (\<lambda>(k, ok). case map_of (map (\<lambda>(k, v). (k, f v)) ps) k of
                       Some v \<Rightarrow> ok v | None \<Rightarrow> False) fs =
        list_all (\<lambda>(k, ok). case map_of ps k of Some v \<Rightarrow> ok v | None \<Rightarrow> False) fs"
    unfolding list_all_iff
  proof (rule ball_cong [OF refl])
    fix x
    assume x: "x \<in> set fs"
    obtain k ok where kok: "x = (k, ok)"
      by (cases x)
    with x assms have "ok (f v) = ok v" for v
      by blast
    then show "(case x of (k, ok) \<Rightarrow> case map_of (map (\<lambda>(k, v). (k, f v)) ps) k of
                    Some v \<Rightarrow> ok v | None \<Rightarrow> False) =
               (case x of (k, ok) \<Rightarrow> case map_of ps k of Some v \<Rightarrow> ok v | None \<Rightarrow> False)"
      by (simp add: kok look split: option.splits)
  qed
  then show ?thesis
    by (simp only: has_exactly_def keys)
qed

lemma is_rubric_error_stringified: "is_rubric_error (stringified v) = is_rubric_error v"
proof (cases v)
  case (JObj ps)
  have "has_exactly (map (\<lambda>(k, v). (k, stringified v)) ps)
          [(ustr ''rule'', is_string), (ustr ''explanation'', is_string)] =
        has_exactly ps [(ustr ''rule'', is_string), (ustr ''explanation'', is_string)]"
    by (rule has_exactly_map) (auto simp: is_string_stringified)
  with JObj show ?thesis
    by (simp add: is_rubric_error_def)
qed (simp_all add: is_rubric_error_def)

lemma is_error_array_stringified: "is_error_array (stringified v) = is_error_array v"
proof (cases v)
  case (JArr xs)
  have "list_all is_rubric_error (map stringified xs) = list_all is_rubric_error xs"
    by (induction xs) (simp_all add: is_rubric_error_stringified)
  with JArr show ?thesis
    by (simp add: is_error_array_def)
qed (simp_all add: is_error_array_def)

lemma verdict_shape_stringified: "verdict_shape (stringified v) = verdict_shape v"
proof (cases v)
  case (JObj ps)
  have "has_exactly (map (\<lambda>(k, v). (k, stringified v)) ps)
          [(ustr ''isValid'', is_boolean),
           (ustr ''promptRequirement'', is_string),
           (ustr ''errors'', is_error_array),
           (ustr ''suggestion'', is_string),
           (ustr ''reasoning'', is_string)] =
        has_exactly ps
          [(ustr ''isValid'', is_boolean),
           (ustr ''promptRequirement'', is_string),
           (ustr ''errors'', is_error_array),
           (ustr ''suggestion'', is_string),
           (ustr ''reasoning'', is_string)]"
    by (rule has_exactly_map)
       (auto simp: is_string_stringified is_boolean_stringified is_error_array_stringified)
  with JObj show ?thesis
    by (simp add: verdict_shape_def)
qed (simp_all add: verdict_shape_def)

text \<open>
  A text that parses to \<open>null\<close> is answered like a text that does not parse: reading
  \<open>evaluation.isValid\<close> throws inside the inner \<open>try\<close> block.
\<close>

lemma null_payload_answers_500:
  assumes "payload_text data = Some (JStr t)" and "JSON_parse e (trim t) = Inr JNull"
  shows "fst (read_reply e pr cr data) =
           message_response (ustr ''Error parsing Claude response'') 500"
proof -
  from assms(1) have "data \<noteq> JNull"
    by (rule payload_text_not_null)
  with assms show ?thesis
    by (simp add: read_reply_def inner_try_def after_def parse_error_def Let_def)
qed

lemma fst_inner_try_formspree:
  "fst (inner_try (e\<lparr>formspree := a\<rparr>) pr cr text) = fst (inner_try e pr cr text)"
  by (simp add: inner_try_def after_def Let_def parse_error_def
      split: json.splits sum.splits)

lemma outbound_inner_try_formspree:
  "filter outbound (snd (inner_try (e\<lparr>formspree := a\<rparr>) pr cr text)) =
   filter outbound (snd (inner_try e pr cr text))"
  by (simp add: inner_try_def after_def Let_def parse_error_def log_body_def
      split: json.splits sum.splits logger_reply.splits)

lemma fst_read_reply_formspree:
  "fst (read_reply (e\<lparr>formspree := a\<rparr>) pr cr data) = fst (read_reply e pr cr data)"
  by (simp add: read_reply_def fst_inner_try_formspree route_error_def split: option.splits)

lemma outbound_read_reply_formspree:
  "filter outbound (snd (read_reply (e\<lparr>formspree := a\<rparr>) pr cr data)) =
   filter outbound (snd (read_reply e pr cr data))"
  by (simp add: read_reply_def outbound_inner_try_formspree route_error_def split: option.splits)

lemma upstream_error_formspree:
  "upstream_error (e\<lparr>formspree := a\<rparr>) st txt = upstream_error e st txt"
  by (cases "txt") (simp_all add: upstream_error_def)

lemma fst_outer_try_formspree:
  "fst (outer_try (e\<lparr>formspree := a\<rparr>) key) = fst (outer_try e key)"
  by (simp add: outer_try_def after_def fst_read_reply_formspree upstream_error_formspree
      split: sum.splits option.splits provider_reply.splits)

lemma outbound_outer_try_formspree:
  "filter outbound (snd (outer_try (e\<lparr>formspree := a\<rparr>) key)) =
   filter outbound (snd (outer_try e key))"
  by (simp add: outer_try_def after_def outbound_read_reply_formspree upstream_error_formspree
      split: sum.splits option.splits provider_reply.splits)

lemma POST_formspree:
  "fst (POST (e\<lparr>formspree := a\<rparr>)) = fst (POST e)"
  "filter outbound (snd (POST (e\<lparr>formspree := a\<rparr>))) = filter outbound (snd (POST e))"
  by (simp_all add: POST_def fst_outer_try_formspree outbound_outer_try_formspree
      split: option.splits)

lemma trim_verdict_text: "trim (0x0A # verdict_text @ [0x0A]) = verdict_text"
  by code_simp

lemma verdict_env_facts:
  "CLAUDE_API_KEY verdict_env = Some (ustr ''key'')"
  "ustr ''key'' \<noteq> []"
  "request_json verdict_env =
      Inr (JObj [(ustr ''prompt'', JStr (ustr ''p'')), (ustr ''criterion'', JStr (ustr ''c''))])"
  "property (ustr ''prompt'')
      (JObj [(ustr ''prompt'', JStr (ustr ''p'')), (ustr ''criterion'', JStr (ustr ''c''))]) = Some (JStr (ustr ''p''))"
  "truthy (JStr (ustr ''p''))"
  "\<not> to_string_throws (JStr (ustr ''p''))"
  "property (ustr ''criterion'')
      (JObj [(ustr ''prompt'', JStr (ustr ''p'')), (ustr ''criterion'', JStr (ustr ''c''))]) = Some (JStr (ustr ''c''))"
  "truthy (JStr (ustr ''c''))"
  "\<not> to_string_throws (JStr (ustr ''c''))"
  "provider verdict_env = ProviderResponse 200 (Inr [])
        (Inr (JObj [(ustr ''content'',
                     JArr [JObj [(ustr ''type'', JStr (ustr ''text'')),
                                 (ustr ''text'', JStr (0x0A # verdict_text @ [0x0A]))]])]))"
  "response_ok 200"
  "payload_text (JObj [(ustr ''content'',
                     JArr [JObj [(ustr ''type'', JStr (ustr ''text'')),
                                 (ustr ''text'', JStr (0x0A # verdict_text @ [0x0A]))]])])
       = Some (JStr (0x0A # verdict_text @ [0x0A]))"
  "JSON_parse verdict_env (trim (0x0A # verdict_text @ [0x0A])) = Inr verdict_value"
  "verdict_value \<noteq> JNull"
  by (simp_all add: verdict_env_def ustr_def response_ok_def payload_text_def trim_verdict_text
      verdict_value_def)

lemma verdict_shape_verdict_value: "verdict_shape verdict_value"
  by (simp add: verdict_value_def verdict_shape_def has_exactly_def is_boolean_def
        is_string_def is_error_array_def ustr_def)

lemma POST_verdict_env: "fst (POST verdict_env) = \<lparr>status = 200, body = verdict_value\<rparr>"
  by (simp add: verdict_env_def POST_def outer_try_def read_reply_def payload_text_def
      inner_try_def after_def response_ok_def ustr_def trim_verdict_text Let_def
      verdict_value_def)

section \<open>The claims\<close>

subsection \<open>C1\<close>

text \<open>
  Claim C1. If the trimmed prompt is not empty and the lines of the criteria block,
  trimmed and without the blank ones, are the list \<open>cl\<close> of at least one item, then
  \<open>analyzeCriteria\<close> goes on to its loop with \<open>cl\<close> and creates exactly one row per
  item of \<open>cl\<close>, in the order of \<open>cl\<close> and with its duplicates: each row holds its
  criterion, \<open>loading = true\<close>, \<open>result = null\<close>, \<open>expanded = false\<close> and no error.
  The flag of the run is set, and at the end of the run the rows still are the rows of
  \<open>cl\<close>, in order.
\<close>

theorem analyze_creates_one_row_per_criterion:
  assumes "trim (st_prompt w) \<noteq> []"
    and "filter (\<lambda>c. length c > 0) (map trim (split_str newline (st_criteria w))) = cl"
    and "1 \<le> length cl"
  shows "fst (analyze_begin w) = Some (trim (st_prompt w), cl)
       \<and> st_analyses (snd (analyze_begin w)) =
           map (\<lambda>c. \<lparr>criterion = c, result = JNull, expanded = False, loading = True, error = None\<rparr>) cl
       \<and> st_loading (snd (analyze_begin w))
       \<and> map criterion (st_analyses (analyzeCriteria net w)) = cl"
proof -
  from assms(2) have cl: "criteriaList (st_criteria w) = cl"
    by (simp add: criteriaList_def)
  with assms(3) have ne: "criteriaList (st_criteria w) \<noteq> []"
    by auto
  have rows: "map initial_row cl =
      map (\<lambda>c. \<lparr>criterion = c, result = JNull, expanded = False, loading = True, error = None\<rparr>) cl"
    by (simp add: initial_row_def)
  have "map criterion (st_analyses (analyzeCriteria net w)) = map criterion (map initial_row cl)"
    by (simp add: analyzeCriteria_valid [OF assms(1) ne] map_criterion_loop cl)
  also have "\<dots> = cl"
    by (induction cl) (simp_all add: initial_row_def)
  finally show ?thesis
    using analyze_begin_valid [OF assms(1) ne] by (simp add: cl rows)
qed

text \<open>
  The sample page has the lines \<open>a\<close>, blank, \<open>b\<close>, \<open>a\<close>: three rows, the
  duplicate kept.
\<close>

theorem analyze_creates_one_row_per_criterion_witness:
  "trim (st_prompt sample_component) \<noteq> []
   \<and> filter (\<lambda>c. length c > 0) (map trim (split_str newline (st_criteria sample_component)))
       = [ustr ''a'', ustr ''b'', ustr ''a'']
   \<and> 1 \<le> length [ustr ''a'', ustr ''b'', ustr ''a'']
   \<and> st_analyses (snd (analyze_begin sample_component)) =
       [\<lparr>criterion = ustr ''a'', result = JNull, expanded = False, loading = True, error = None\<rparr>,
        \<lparr>criterion = ustr ''b'', result = JNull, expanded = False, loading = True, error = None\<rparr>,
        \<lparr>criterion = ustr ''a'', result = JNull, expanded = False, loading = True, error = None\<rparr>]
   \<and> map criterion (st_analyses (analyzeCriteria (\<lambda>i. NotOk) sample_component))
       = [ustr ''a'', ustr ''b'', ustr ''a'']"
proof -
  have p: "trim (st_prompt sample_component) \<noteq> []"
    by (simp add: sample_prompt ustr_def)
  have l: "filter (\<lambda>c. length c > 0) (map trim (split_str newline (st_criteria sample_component)))
       = [ustr ''a'', ustr ''b'', ustr ''a'']"
    using sample_list by (simp add: criteriaList_def)
  have n: "1 \<le> length [ustr ''a'', ustr ''b'', ustr ''a'']"
    by simp
  from analyze_creates_one_row_per_criterion [OF p l n, of "\<lambda>i. NotOk"] p l show ?thesis by simp
qed

subsection \<open>C2\<close>

text \<open>
  Claim C2. Let the request of turn \<open>i\<close> fail in one of the three ways: \<open>fetch\<close>
  rejects with \<open>err\<close> (a network error), the status is not a success (the component
  then throws an \<open>Error\<close> with the message \<open>Failed to analyze criterion\<close>), or
  \<open>response.json()\<close> rejects with \<open>err\<close> (the reply is not JSON). Then in whatever
  state \<open>w\<close> the turn begins, it changes row \<open>i\<close> only, setting its error to the message
  of \<open>err\<close> (to \<open>Failed to analyze criterion\<close> if \<open>err\<close> is no \<open>Error\<close>) and clearing
  \<open>loading\<close>; the loop goes on with turn \<open>i + 1\<close>; and the rest of the loop leaves the
  rows below \<open>i\<close> as they are. For a whole call that passes the checks with the criteria
  \<open>cl\<close>: one request per criterion is sent, in order, whatever fails; the row of each
  index is the initial row changed by the outcome of its own request alone; and row
  \<open>i\<close> is the initial row with the error and \<open>loading = false\<close>.
\<close>

theorem failed_request_marks_only_its_row:
  assumes "net i = FetchRejected err \<or> net i = JsonRejected err
           \<or> (net i = NotOk \<and> err = Some (ustr ''Failed to analyze criterion''))"
    and "i < length cl"
    and "i < length (st_analyses w)"
    and "analyze_begin w0 = (Some (p, cl), w1)"
  shows "st_analyses (iteration p cl net i w) =
           (st_analyses w)
           [i := (st_analyses w ! i)
              \<lparr>error := Some (case err of Some m \<Rightarrow> m
                               | None \<Rightarrow> ustr ''Failed to analyze criterion''),
               loading := False\<rparr>]
       \<and> loop p cl net i w = loop p cl net (Suc i) (iteration p cl net i w)
       \<and> take i (st_analyses (loop p cl net i w)) = take i (st_analyses w)
       \<and> fetches (analyzeCriteria net w0) = fetches w0 @ map (Pair p) cl
       \<and> st_analyses (analyzeCriteria net w0) =
           map_idx
             (\<lambda>row j.
                case net j of
                  Resolved r \<Rightarrow> row\<lparr>result := r, loading := False\<rparr>
                | NotOk \<Rightarrow>
                    row\<lparr>error := Some (ustr ''Failed to analyze criterion''), loading := False\<rparr>
                | FetchRejected e \<Rightarrow>
                    row\<lparr>error := Some (case e of Some m \<Rightarrow> m
                                        | None \<Rightarrow> ustr ''Failed to analyze criterion''),
                        loading := False\<rparr>
                | JsonRejected e \<Rightarrow>
                    row\<lparr>error := Some (case e of Some m \<Rightarrow> m
                                        | None \<Rightarrow> ustr ''Failed to analyze criterion''),
                        loading := False\<rparr>)
             (map (\<lambda>c. \<lparr>criterion = c, result = JNull, expanded = False, loading = True,
                         error = None\<rparr>) cl)
       \<and> st_analyses (analyzeCriteria net w0) ! i =
           \<lparr>criterion = cl ! i, result = JNull, expanded = False, loading = False,
            error = Some (case err of Some m \<Rightarrow> m
                          | None \<Rightarrow> ustr ''Failed to analyze criterion'')\<rparr>"
proof -
  from assms(1) have thrown: "try_block (net i) = Inl err"
    by auto
  have one: "st_analyses (iteration p cl net i w) =
           (st_analyses w)
           [i := (st_analyses w ! i)
              \<lparr>error := Some (case err of Some m \<Rightarrow> m
                               | None \<Rightarrow> ustr ''Failed to analyze criterion''),
               loading := False\<rparr>]"
    using thrown assms(3) by (simp add: st_analyses_iteration row_after_def err_message_def)
  have two: "loop p cl net i w = loop p cl net (Suc i) (iteration p cl net i w)"
    using assms(2) by (subst loop.simps) simp
  have three: "take i (st_analyses (loop p cl net i w)) = take i (st_analyses w)"
    by (rule nth_equalityI) (simp_all add: st_analyses_loop length_map_idx nth_map_idx)
  from assms(4) have w1: "w1 = w0\<lparr>st_loading := True, st_error := [], st_analyses := map initial_row cl\<rparr>"
    by (auto simp: analyze_begin_def Let_def split: if_splits)
  have run: "analyzeCriteria net w0 = (loop p cl net 0 w1)\<lparr>st_loading := False\<rparr>"
    by (simp add: analyzeCriteria_def assms(4))
  have four: "fetches (analyzeCriteria net w0) = fetches w0 @ map (Pair p) cl"
    by (simp add: run fetches_loop w1)
  have rows: "st_analyses (analyzeCriteria net w0) =
           map_idx (\<lambda>row j. row_after (net j) row) (map initial_row cl)"
    unfolding run w1
    by (rule nth_equalityI) (simp_all add: st_analyses_loop length_map_idx nth_map_idx)
  have init: "map initial_row cl =
      map (\<lambda>c. \<lparr>criterion = c, result = JNull, expanded = False, loading = True,
                  error = None\<rparr>) cl"
    by (simp add: initial_row_def)
  have five: "st_analyses (analyzeCriteria net w0) =
           map_idx
             (\<lambda>row j.
                case net j of
                  Resolved r \<Rightarrow> row\<lparr>result := r, loading := False\<rparr>
                | NotOk \<Rightarrow>
                    row\<lparr>error := Some (ustr ''Failed to analyze criterion''), loading := False\<rparr>
                | FetchRejected e \<Rightarrow>
                    row\<lparr>error := Some (case e of Some m \<Rightarrow> m
                                        | None \<Rightarrow> ustr ''Failed to analyze criterion''),
                        loading := False\<rparr>
                | JsonRejected e \<Rightarrow>
                    row\<lparr>error := Some (case e of Some m \<Rightarrow> m
                                        | None \<Rightarrow> ustr ''Failed to analyze criterion''),
                        loading := False\<rparr>)
             (map (\<lambda>c. \<lparr>criterion = c, result = JNull, expanded = False, loading = True,
                         error = None\<rparr>) cl)"
    unfolding rows init row_after_cases ..
  have six: "st_analyses (analyzeCriteria net w0) ! i =
           \<lparr>criterion = cl ! i, result = JNull, expanded = False, loading = False,
            error = Some (case err of Some m \<Rightarrow> m
                          | None \<Rightarrow> ustr ''Failed to analyze criterion'')\<rparr>"
    using thrown assms(2)
    by (simp add: rows nth_map_idx row_after_def err_message_def initial_row_def)
  from one two three four five six show ?thesis
    by (intro conjI)
qed

text \<open>
  On the sample page the first request is rejected, the second is answered 500 and
  the third is answered with a body that is not JSON: three requests are sent, and each
  row ends with the message of its own failure.
\<close>

theorem failed_request_marks_only_its_row_witness:
  "failing_net 0 = FetchRejected (Some (ustr ''Failed to fetch''))
   \<and> failing_net 1 = NotOk
   \<and> failing_net 2 = JsonRejected (Some (ustr ''Unexpected token''))
   \<and> 2 < length [ustr ''a'', ustr ''b'', ustr ''a'']
   \<and> 2 < length (st_analyses (snd (analyze_begin sample_component)))
   \<and> analyze_begin sample_component =
       (Some (ustr ''List movies'', [ustr ''a'', ustr ''b'', ustr ''a'']),
        snd (analyze_begin sample_component))
   \<and> fetches (analyzeCriteria failing_net sample_component) =
       [(ustr ''List movies'', ustr ''a''), (ustr ''List movies'', ustr ''b''),
        (ustr ''List movies'', ustr ''a'')]
   \<and> st_analyses (analyzeCriteria failing_net sample_component) ! 0 =
       \<lparr>criterion = ustr ''a'', result = JNull, expanded = False, loading = False,
        error = Some (ustr ''Failed to fetch'')\<rparr>
   \<and> st_analyses (analyzeCriteria failing_net sample_component) ! 1 =
       \<lparr>criterion = ustr ''b'', result = JNull, expanded = False, loading = False,
        error = Some (ustr ''Failed to analyze criterion'')\<rparr>
   \<and> st_analyses (analyzeCriteria failing_net sample_component) ! 2 =
       \<lparr>criterion = ustr ''a'', result = JNull, expanded = False, loading = False,
        error = Some (ustr ''Unexpected token'')\<rparr>"
proof -
  have n0: "failing_net 0 = FetchRejected (Some (ustr ''Failed to fetch''))"
    and n1: "failing_net 1 = NotOk"
    and n2: "failing_net 2 = JsonRejected (Some (ustr ''Unexpected token''))"
    by (simp_all add: failing_net_def)
  have a0: "failing_net 0 = FetchRejected (Some (ustr ''Failed to fetch''))
      \<or> failing_net 0 = JsonRejected (Some (ustr ''Failed to fetch''))
      \<or> (failing_net 0 = NotOk
          \<and> Some (ustr ''Failed to fetch'') = Some (ustr ''Failed to analyze criterion''))"
    using n0 by simp
  have a1: "failing_net 1 = FetchRejected (Some (ustr ''Failed to analyze criterion''))
      \<or> failing_net 1 = JsonRejected (Some (ustr ''Failed to analyze criterion''))
      \<or> (failing_net 1 = NotOk
          \<and> Some (ustr ''Failed to analyze criterion'') = Some (ustr ''Failed to analyze criterion''))"
    using n1 by simp
  have a2: "failing_net 2 = FetchRejected (Some (ustr ''Unexpected token''))
      \<or> failing_net 2 = JsonRejected (Some (ustr ''Unexpected token''))
      \<or> (failing_net 2 = NotOk
          \<and> Some (ustr ''Unexpected token'') = Some (ustr ''Failed to analyze criterion''))"
    using n2 by simp
  have b0: "0 < length [ustr ''a'', ustr ''b'', ustr ''a'']"
    and b1: "1 < length [ustr ''a'', ustr ''b'', ustr ''a'']"
    and b2: "2 < length [ustr ''a'', ustr ''b'', ustr ''a'']"
    by simp_all
  have p: "trim (st_prompt sample_component) \<noteq> []"
    by (simp add: sample_prompt ustr_def)
  have l: "criteriaList (st_criteria sample_component) \<noteq> []"
    by (simp add: sample_list)
  have d: "analyze_begin sample_component =
       (Some (ustr ''List movies'', [ustr ''a'', ustr ''b'', ustr ''a'']),
        snd (analyze_begin sample_component))"
    by (simp add: analyze_begin_valid [OF p l] sample_list sample_prompt)
  have c0: "0 < length (st_analyses (snd (analyze_begin sample_component)))"
    and c1: "1 < length (st_analyses (snd (analyze_begin sample_component)))"
    and c2: "2 < length (st_analyses (snd (analyze_begin sample_component)))"
    by (simp_all add: analyze_begin_valid [OF p l] sample_list)
  have f: "fetches sample_component = []"
    by (simp add: sample_component_def initial_component_def)
  note t0 = failed_request_marks_only_its_row [where net = failing_net and i = 0, OF a0 b0 c0 d]
  note t1 = failed_request_marks_only_its_row [where net = failing_net and i = 1, OF a1 b1 c1 d]
  note t2 = failed_request_marks_only_its_row [where net = failing_net and i = 2, OF a2 b2 c2 d]
  from t1 have sent: "fetches (analyzeCriteria failing_net sample_component) =
      fetches sample_component
      @ map (Pair (ustr ''List movies'')) [ustr ''a'', ustr ''b'', ustr ''a'']"
    by blast
  from sent f have sent': "fetches (analyzeCriteria failing_net sample_component) =
       [(ustr ''List movies'', ustr ''a''), (ustr ''List movies'', ustr ''b''),
        (ustr ''List movies'', ustr ''a'')]"
    by simp
  from t0 have r0: "st_analyses (analyzeCriteria failing_net sample_component) ! 0 =
       \<lparr>criterion = [ustr ''a'', ustr ''b'', ustr ''a''] ! 0, result = JNull, expanded = False,
        loading = False,
        error = Some (case Some (ustr ''Failed to fetch'') of Some m \<Rightarrow> m
                      | None \<Rightarrow> ustr ''Failed to analyze criterion'')\<rparr>"
    by blast
  from t1 have r1: "st_analyses (analyzeCriteria failing_net sample_component) ! 1 =
       \<lparr>criterion = [ustr ''a'', ustr ''b'', ustr ''a''] ! 1, result = JNull, expanded = False,
        loading = False,
        error = Some (case Some (ustr ''Failed to analyze criterion'') of Some m \<Rightarrow> m
                      | None \<Rightarrow> ustr ''Failed to analyze criterion'')\<rparr>"
    by blast
  from t2 have r2: "st_analyses (analyzeCriteria failing_net sample_component) ! 2 =
       \<lparr>criterion = [ustr ''a'', ustr ''b'', ustr ''a''] ! 2, result = JNull, expanded = False,
        loading = False,
        error = Some (case Some (ustr ''Unexpected token'') of Some m \<Rightarrow> m
                      | None \<Rightarrow> ustr ''Failed to analyze criterion'')\<rparr>"
    by blast
  have r0': "st_analyses (analyzeCriteria failing_net sample_component) ! 0 =
       \<lparr>criterion = ustr ''a'', result = JNull, expanded = False, loading = False,
        error = Some (ustr ''Failed to fetch'')\<rparr>"
    using r0 by simp
  have r1': "st_analyses (analyzeCriteria failing_net sample_component) ! 1 =
       \<lparr>criterion = ustr ''b'', result = JNull, expanded = False, loading = False,
        error = Some (ustr ''Failed to analyze criterion'')\<rparr>"
    using r1 by simp
  have r2': "st_analyses (analyzeCriteria failing_net sample_component) ! 2 =
       \<lparr>criterion = ustr ''a'', result = JNull, expanded = False, loading = False,
        error = Some (ustr ''Unexpected token'')\<rparr>"
    using r2 by (simp add: numeral_2_eq_2)
  from n0 n1 n2 b2 c2 d sent' r0' r1' r2' show ?thesis
    by (intro conjI)
qed

subsection \<open>C3\<close>

text \<open>
  Claim C3 says that whenever the text of the provider parses as JSON, the body of the
  200 response has the shape of a verdict. The route does not look at the parsed value:
  for the text \<open>{}\<close> it answers 200 with the empty object, which has none of the five
  fields.
\<close>

theorem parsed_payload_need_not_be_a_verdict:
  "CLAUDE_API_KEY shapeless_env = Some (ustr ''key'')
   \<and> provider shapeless_env = ProviderResponse 200 (Inr [])
        (Inr (JObj [(ustr ''content'',
                     JArr [JObj [(ustr ''type'', JStr (ustr ''text'')),
                                 (ustr ''text'', JStr (ustr '' {} ''))]])]))
   \<and> request_json shapeless_env =
       Inr (JObj [(ustr ''prompt'', JStr (ustr ''p'')), (ustr ''criterion'', JStr (ustr ''c''))])
   \<and> JSON_parse shapeless_env (trim (ustr '' {} '')) = Inr (JObj [])
   \<and> fst (POST shapeless_env) = \<lparr>status = 200, body = JObj []\<rparr>
   \<and> \<not> verdict_shape (body (fst (POST shapeless_env)))"
  by (simp add: shapeless_env_def POST_def outer_try_def read_reply_def payload_text_def
      inner_try_def after_def response_ok_def message_response_def ustr_def trim_def
      is_white_space_def Let_def verdict_shape_def has_exactly_def)

text \<open>
  Claim C3, amended. If the key is set, \<open>prompt\<close> and \<open>criterion\<close> of the request
  are truthy and can be converted to strings (as every non-empty string is and can),
  the provider answers with a success status and a body whose \<open>content[0].text\<close> is
  a non-empty string, and that string, trimmed, parses as JSON to a value \<open>v\<close> other
  than \<open>null\<close>, then the route answers with status 200 and with \<open>v\<close> written as
  JSON as the body: \<open>v\<close> itself, but for an infinity, sent as \<open>null\<close>, and the
  negative zero, sent as \<open>0\<close>. Nothing is checked, so the body has the shape of a
  verdict if and only if \<open>v\<close> has.
\<close>

theorem parsed_payload_is_returned_as_it_is:
  assumes key: "CLAUDE_API_KEY e = Some key" "key \<noteq> []"
    and req: "request_json e = Inr b"
    and prompt: "property (ustr ''prompt'') b = Some pr" "truthy pr" "\<not> to_string_throws pr"
    and crit: "property (ustr ''criterion'') b = Some cr" "truthy cr" "\<not> to_string_throws cr"
    and reply: "provider e = ProviderResponse st txt (Inr data)" "response_ok st"
    and payload: "payload_text data = Some (JStr t)"
    and parse: "JSON_parse e (trim t) = Inr v" "v \<noteq> JNull"
  shows "fst (POST e) = \<lparr>status = 200, body = stringified v\<rparr>
       \<and> verdict_shape (body (fst (POST e))) = verdict_shape v"
proof -
  from prompt(1) have b: "b \<noteq> JNull"
    by (rule property_not_null)
  from payload have d: "data \<noteq> JNull"
    by (rule payload_text_not_null)
  have "inner_try e pr cr (JStr t) =
          after [Console (ustr ''Cleaned text for parsing:'') [PStr (trim t)]]
            (\<lparr>status = 200, body = stringified v\<rparr>,
             FetchFormspree (log_body e pr cr v) #
             (case formspree e of
                LoggerRejected m \<Rightarrow> [Console (ustr ''Error sending to Formspree:'') [PError m]]
              | LoggerResponse st \<Rightarrow> []))"
    using parse by (simp add: inner_try_def Let_def)
  then have "fst (inner_try e pr cr (JStr t)) = \<lparr>status = 200, body = stringified v\<rparr>"
    by (simp add: after_def)
  then have "fst (read_reply e pr cr data) = \<lparr>status = 200, body = stringified v\<rparr>"
    using d payload by (simp add: read_reply_def)
  then have "fst (outer_try e key) = \<lparr>status = 200, body = stringified v\<rparr>"
    using b req prompt crit reply by (simp add: outer_try_def after_def)
  then have sent: "fst (POST e) = \<lparr>status = 200, body = stringified v\<rparr>"
    using key by (simp add: POST_def)
  then show ?thesis
    by (simp add: verdict_shape_stringified)
qed

theorem parsed_payload_is_returned_as_it_is_witness:
  "CLAUDE_API_KEY verdict_env = Some (ustr ''key'') \<and> ustr ''key'' \<noteq> []
   \<and> response_ok 200
   \<and> payload_text (JObj [(ustr ''content'',
                     JArr [JObj [(ustr ''type'', JStr (ustr ''text'')),
                                 (ustr ''text'', JStr (0x0A # verdict_text @ [0x0A]))]])])
       = Some (JStr (0x0A # verdict_text @ [0x0A]))
   \<and> JSON_parse verdict_env (trim (0x0A # verdict_text @ [0x0A])) = Inr verdict_value
   \<and> verdict_value \<noteq> JNull
   \<and> fst (POST verdict_env) = \<lparr>status = 200, body = verdict_value\<rparr>
   \<and> verdict_shape (body (fst (POST verdict_env)))"
proof -
  note t = parsed_payload_is_returned_as_it_is [OF verdict_env_facts]
  have same: "stringified verdict_value = verdict_value"
    by (simp add: verdict_value_def)
  from t have sent: "fst (POST verdict_env) = \<lparr>status = 200, body = verdict_value\<rparr>"
    by (simp add: same)
  from t verdict_shape_verdict_value have shape: "verdict_shape (body (fst (POST verdict_env)))"
    by blast
  from verdict_env_facts(1,2,11-14) sent shape show ?thesis
    by (intro conjI)
qed

subsection \<open>C4\<close>

text \<open>
  Claim C4. If the trimmed prompt is empty, or the trimmed criteria block is empty, or
  its lines, trimmed and without the blank ones, are none, then the call sets an error
  message that is not empty, sends no request, and creates no row: the list of rows is
  what it was before the call (empty, on a page that has not run an analysis), and no
  call is left waiting.
\<close>

theorem invalid_input_sets_error_and_sends_nothing:
  assumes "trim (st_prompt w) = [] \<or> trim (st_criteria w) = []
           \<or> filter (\<lambda>c. length c > 0) (map trim (split_str newline (st_criteria w))) = []"
  shows "st_error (analyzeCriteria net w) \<noteq> []
       \<and> fetches (analyzeCriteria net w) = fetches w
       \<and> st_analyses (analyzeCriteria net w) = st_analyses w
       \<and> pending (fire Click \<lparr>grader = w, pending = rs\<rparr>) = rs"
proof -
  from assms have inv: "trim (st_prompt w) = [] \<or> trim (st_criteria w) = [] \<or> criteriaList (st_criteria w) = []"
    by (simp add: criteriaList_def)
  show ?thesis
    by (simp add: analyzeCriteria_invalid [OF inv] analyze_begin_invalid [OF inv] ustr_def)
qed

text \<open>
  The page with a prompt and a criteria block of a blank, a line feed and a tab.
\<close>

theorem invalid_input_sets_error_and_sends_nothing_witness:
  "(trim (st_prompt blank_component) = [] \<or> trim (st_criteria blank_component) = []
     \<or> filter (\<lambda>c. length c > 0) (map trim (split_str newline (st_criteria blank_component))) = [])
   \<and> st_error (analyzeCriteria (\<lambda>i. Resolved JNull) blank_component) \<noteq> []
   \<and> fetches (analyzeCriteria (\<lambda>i. Resolved JNull) blank_component) = []
   \<and> st_analyses (analyzeCriteria (\<lambda>i. Resolved JNull) blank_component) = []"
proof -
  have h: "trim (st_prompt blank_component) = [] \<or> trim (st_criteria blank_component) = []
     \<or> filter (\<lambda>c. length c > 0) (map trim (split_str newline (st_criteria blank_component))) = []"
    by (simp add: blank_component_def initial_component_def trim_def is_white_space_def newline_def)
  have "fetches blank_component = []" "st_analyses blank_component = []"
    by (simp_all add: blank_component_def initial_component_def)
  with invalid_input_sets_error_and_sends_nothing [OF h, of "\<lambda>i. Resolved JNull" "[]"] h show ?thesis by simp
qed

subsection \<open>C5\<close>

text \<open>
  Claim C5. For an index \<open>i\<close> inside the list of rows, the update of
  \<open>toggleExpanded\<close> gives the same list with \<open>expanded\<close> of row \<open>i\<close> negated and
  nothing else changed, whatever the rows hold in \<open>loading\<close>, \<open>result\<close> and
  \<open>error\<close>. \<open>toggleExpanded i\<close> puts that list in the place of the rows and changes
  nothing else of the component, a click on row \<open>i\<close> does the same to the page and
  leaves the waiting calls alone, and two calls of \<open>toggleExpanded i\<close> in a row give
  back the rows, and the whole state of the component, as they were.
\<close>

theorem toggleExpanded_flips_one_row_and_undoes_itself:
  assumes "i < length rows"
  shows "toggle_row i rows = rows[i := (rows ! i)\<lparr>expanded := \<not> expanded (rows ! i)\<rparr>]
       \<and> toggle_row i (toggle_row i rows) = rows
       \<and> (st_analyses w = rows \<longrightarrow>
            toggleExpanded i w =
              w\<lparr>st_analyses := rows[i := (rows ! i)\<lparr>expanded := \<not> expanded (rows ! i)\<rparr>]\<rparr>
          \<and> toggleExpanded i (toggleExpanded i w) = w
          \<and> fire (Toggle i) \<lparr>grader = w, pending = rs\<rparr> =
              \<lparr>grader =
                 w\<lparr>st_analyses := rows[i := (rows ! i)\<lparr>expanded := \<not> expanded (rows ! i)\<rparr>]\<rparr>,
               pending = rs\<rparr>)"
proof -
  have flip: "toggle_row i rows = rows[i := (rows ! i)\<lparr>expanded := \<not> expanded (rows ! i)\<rparr>]"
    using assms by (simp add: toggle_row_eq)
  have twice: "toggle_row i (toggle_row i rows) = rows"
    by (rule toggle_row_twice)
  have "toggleExpanded i w =
          w\<lparr>st_analyses := rows[i := (rows ! i)\<lparr>expanded := \<not> expanded (rows ! i)\<rparr>]\<rparr>
      \<and> toggleExpanded i (toggleExpanded i w) = w
      \<and> fire (Toggle i) \<lparr>grader = w, pending = rs\<rparr> =
          \<lparr>grader =
             w\<lparr>st_analyses := rows[i := (rows ! i)\<lparr>expanded := \<not> expanded (rows ! i)\<rparr>]\<rparr>,
           pending = rs\<rparr>"
    if "st_analyses w = rows"
    using that flip twice by (simp add: toggleExpanded_def)
  with flip twice show ?thesis
    by blast
qed

text \<open>
  The second of three rows, one that holds an error.
\<close>

theorem toggleExpanded_flips_one_row_and_undoes_itself_witness:
  "1 < length sample_rows
   \<and> toggle_row 1 sample_rows =
       [\<lparr>criterion = ustr ''a'', result = JBool True, expanded = True, loading = False, error = None\<rparr>,
        \<lparr>criterion = ustr ''b'', result = JNull, expanded = True, loading = False,
          error = Some (ustr ''Failed to analyze criterion'')\<rparr>,
        \<lparr>criterion = ustr ''a'', result = JNull, expanded = False, loading = True, error = None\<rparr>]
   \<and> toggle_row 1 (toggle_row 1 sample_rows) = sample_rows
   \<and> st_analyses (toggleExpanded 1 (initial_component\<lparr>st_analyses := sample_rows\<rparr>)) =
       [\<lparr>criterion = ustr ''a'', result = JBool True, expanded = True, loading = False, error = None\<rparr>,
        \<lparr>criterion = ustr ''b'', result = JNull, expanded = True, loading = False,
          error = Some (ustr ''Failed to analyze criterion'')\<rparr>,
        \<lparr>criterion = ustr ''a'', result = JNull, expanded = False, loading = True, error = None\<rparr>]
   \<and> toggleExpanded 1 (toggleExpanded 1 (initial_component\<lparr>st_analyses := sample_rows\<rparr>))
       = initial_component\<lparr>st_analyses := sample_rows\<rparr>"
proof -
  have h: "1 < length sample_rows"
    by (simp add: sample_rows_def)
  note c = toggleExpanded_flips_one_row_and_undoes_itself
    [OF h, of "initial_component\<lparr>st_analyses := sample_rows\<rparr>" "[]"]
  have v: "sample_rows[1 := (sample_rows ! 1)\<lparr>expanded := \<not> expanded (sample_rows ! 1)\<rparr>] =
       [\<lparr>criterion = ustr ''a'', result = JBool True, expanded = True, loading = False, error = None\<rparr>,
        \<lparr>criterion = ustr ''b'', result = JNull, expanded = True, loading = False,
          error = Some (ustr ''Failed to analyze criterion'')\<rparr>,
        \<lparr>criterion = ustr ''a'', result = JNull, expanded = False, loading = True, error = None\<rparr>]"
    by (simp add: sample_rows_def)
  have s: "st_analyses (initial_component\<lparr>st_analyses := sample_rows\<rparr>) = sample_rows"
    by simp
  from c have c1: "toggle_row 1 sample_rows =
      sample_rows[1 := (sample_rows ! 1)\<lparr>expanded := \<not> expanded (sample_rows ! 1)\<rparr>]"
    by (rule conjunct1)
  from c have c2: "toggle_row 1 (toggle_row 1 sample_rows) = sample_rows"
    by (rule conjunct1 [OF conjunct2])
  from c s have c3: "toggleExpanded 1 (initial_component\<lparr>st_analyses := sample_rows\<rparr>) =
      initial_component\<lparr>st_analyses := sample_rows\<rparr>
        \<lparr>st_analyses :=
           sample_rows[1 := (sample_rows ! 1)\<lparr>expanded := \<not> expanded (sample_rows ! 1)\<rparr>]\<rparr>"
    by blast
  have c3': "st_analyses (toggleExpanded 1 (initial_component\<lparr>st_analyses := sample_rows\<rparr>)) =
      sample_rows[1 := (sample_rows ! 1)\<lparr>expanded := \<not> expanded (sample_rows ! 1)\<rparr>]"
    by (subst c3) simp
  from c s have c4: "toggleExpanded 1 (toggleExpanded 1 (initial_component\<lparr>st_analyses := sample_rows\<rparr>))
       = initial_component\<lparr>st_analyses := sample_rows\<rparr>"
    by blast
  from h c1 [unfolded v] c2 c3' [unfolded v] c4 show ?thesis
    by (intro conjI)
qed

subsection \<open>C6\<close>

text \<open>
  Claim C6. If \<open>CLAUDE_API_KEY\<close> is not in the environment, the route answers with
  status 500 and the fixed message \<open>Server configuration error: API key not found\<close>,
  and all it does besides is one call of \<open>console.error\<close>: no request leaves the
  process. The answer is the same for every request and every environment without the
  key, so nothing of a credential can be in it.
\<close>

theorem missing_key_answers_500_before_any_call:
  assumes "CLAUDE_API_KEY e = None"
  shows "POST e =
           (\<lparr>status = 500,
             body = JObj [(ustr ''message'',
                           JStr (ustr ''Server configuration error: API key not found''))]\<rparr>,
            [Console (ustr ''CLAUDE_API_KEY is not defined'') []])
       \<and> filter outbound (snd (POST e)) = []"
  using assms by (simp add: POST_def message_response_def)

text \<open>
  The second sample environment without its key.
\<close>

theorem missing_key_answers_500_before_any_call_witness:
  "CLAUDE_API_KEY (verdict_env\<lparr>CLAUDE_API_KEY := None\<rparr>) = None
   \<and> fst (POST (verdict_env\<lparr>CLAUDE_API_KEY := None\<rparr>)) =
       \<lparr>status = 500,
        body = JObj [(ustr ''message'',
                      JStr (ustr ''Server configuration error: API key not found''))]\<rparr>
   \<and> filter outbound (snd (POST (verdict_env\<lparr>CLAUDE_API_KEY := None\<rparr>))) = []"
proof -
  have h: "CLAUDE_API_KEY (verdict_env\<lparr>CLAUDE_API_KEY := None\<rparr>) = None"
    by simp
  from missing_key_answers_500_before_any_call [OF h] h show ?thesis
    by simp
qed

subsection \<open>C7\<close>

text \<open>
  Claim C7 says that the updates are guarded by a token that counts the runs, by which
  a reply to a request of a superseded run is discarded. The component keeps no such
  token. Run an analysis to its end and click again: the second run waits for its first
  reply in the very state in which the first run did, with the same rows, flags and
  texts on the page and the same prompt, criteria and index in the waiting call. The
  two differ in nothing but the requests that have been sent. When the reply arrives it
  is applied, not discarded.
\<close>

theorem runs_carry_no_generation_token:
  "reachable running_page \<and> reachable rerun_page
   \<and> fetches (grader running_page) = [(ustr ''p'', ustr ''a'')]
   \<and> fetches (grader rerun_page) = [(ustr ''p'', ustr ''a''), (ustr ''p'', ustr ''a'')]
   \<and> pending rerun_page = pending running_page
   \<and> (grader rerun_page)\<lparr>fetches := []\<rparr> = (grader running_page)\<lparr>fetches := []\<rparr>
   \<and> st_analyses (grader (fire (Settle 0 (Resolved (JBool False))) rerun_page)) =
       [\<lparr>criterion = ustr ''a'', result = JBool False, expanded = False, loading = False,
         error = None\<rparr>]"
proof -
  have "st_analyses (grader (fire (Settle 0 (Resolved (JBool False))) rerun_page)) =
       [\<lparr>criterion = ustr ''a'', result = JBool False, expanded = False, loading = False,
         error = None\<rparr>]"
    by (simp add: rerun_page_eq loop_test_def settle_def set_result_def map_idx_def
        initial_row_def Let_def)
  with reachable_running_page reachable_rerun_page show ?thesis
    by (simp add: rerun_page_eq running_page_eq)
qed

text \<open>
  Claim C7, amended. The component keeps no token that counts the runs and discards no
  reply; a reply of a superseded run is excluded in another way: the button that calls
  \<open>analyzeCriteria\<close> is disabled while \<open>loading\<close> is set. So in every state that the
  page can reach, at most one call of \<open>analyzeCriteria\<close> waits for a reply; while one
  waits, \<open>loading\<close> is set, its index is inside its list of criteria, and the rows on
  the page are the rows of its criteria, in order. A reply that arrives is therefore a
  reply to the only run there is, the run on the page: whether it brings a result or
  a failure, it is applied, by the index of its request, to the rows on the page, where
  it changes the row of its own criterion and no other.
\<close>

theorem one_run_at_a_time_on_the_page:
  assumes "reachable s"
  shows "single_run s
       \<and> (k < length (pending s) \<longrightarrow>
            pending s = [pending s ! k]
          \<and> st_loading (grader s)
          \<and> run_i (pending s ! k) < length (st_analyses (grader s))
          \<and> criterion (st_analyses (grader s) ! run_i (pending s ! k)) =
              run_list (pending s ! k) ! run_i (pending s ! k)
          \<and> st_analyses (grader (fire (Settle k out) s)) =
              (st_analyses (grader s))
              [run_i (pending s ! k) :=
                 (case out of
                    Resolved r \<Rightarrow>
                      (st_analyses (grader s) ! run_i (pending s ! k))
                      \<lparr>result := r, loading := False\<rparr>
                  | NotOk \<Rightarrow>
                      (st_analyses (grader s) ! run_i (pending s ! k))
                      \<lparr>error := Some (ustr ''Failed to analyze criterion''), loading := False\<rparr>
                  | FetchRejected e \<Rightarrow>
                      (st_analyses (grader s) ! run_i (pending s ! k))
                      \<lparr>error := Some (case e of Some m \<Rightarrow> m
                                        | None \<Rightarrow> ustr ''Failed to analyze criterion''),
                        loading := False\<rparr>
                  | JsonRejected e \<Rightarrow>
                      (st_analyses (grader s) ! run_i (pending s ! k))
                      \<lparr>error := Some (case e of Some m \<Rightarrow> m
                                        | None \<Rightarrow> ustr ''Failed to analyze criterion''),
                        loading := False\<rparr>)])"
proof -
  from assms have inv: "single_run s"
    by (rule reachable_single_run)
  have "pending s = [pending s ! k]
      \<and> st_loading (grader s)
      \<and> run_i (pending s ! k) < length (st_analyses (grader s))
      \<and> criterion (st_analyses (grader s) ! run_i (pending s ! k)) =
          run_list (pending s ! k) ! run_i (pending s ! k)
      \<and> st_analyses (grader (fire (Settle k out) s)) =
              (st_analyses (grader s))
              [run_i (pending s ! k) :=
                 (case out of
                    Resolved r \<Rightarrow>
                      (st_analyses (grader s) ! run_i (pending s ! k))
                      \<lparr>result := r, loading := False\<rparr>
                  | NotOk \<Rightarrow>
                      (st_analyses (grader s) ! run_i (pending s ! k))
                      \<lparr>error := Some (ustr ''Failed to analyze criterion''), loading := False\<rparr>
                  | FetchRejected e \<Rightarrow>
                      (st_analyses (grader s) ! run_i (pending s ! k))
                      \<lparr>error := Some (case e of Some m \<Rightarrow> m
                                        | None \<Rightarrow> ustr ''Failed to analyze criterion''),
                        loading := False\<rparr>
                  | JsonRejected e \<Rightarrow>
                      (st_analyses (grader s) ! run_i (pending s ! k))
                      \<lparr>error := Some (case e of Some m \<Rightarrow> m
                                        | None \<Rightarrow> ustr ''Failed to analyze criterion''),
                        loading := False\<rparr>)]"
    if k: "k < length (pending s)"
  proof -
    from inv k obtain q where q: "pending s = [q]" "k = 0" "st_loading (grader s)"
        "map criterion (st_analyses (grader s)) = run_list q" "run_i q < length (run_list q)"
      by (auto simp: single_run_def split: list.splits)
    from q(4,5) have len: "run_i q < length (st_analyses (grader s))"
      by (metis length_map)
    from q(4) len have crit: "criterion (st_analyses (grader s) ! run_i q) = run_list q ! run_i q"
      by (metis nth_map)
    have "st_analyses (grader (fire (Settle k out) s)) =
            st_analyses (settle (run_i (pending s ! k)) out (grader s))"
      using k by (rule settle_by_index)
    also have "\<dots> = (st_analyses (grader s))
          [run_i q := row_after out (st_analyses (grader s) ! run_i q)]"
      using len q(1,2) by (simp add: st_analyses_settle)
    finally have "st_analyses (grader (fire (Settle k out) s)) =
        (st_analyses (grader s))
          [run_i q := row_after out (st_analyses (grader s) ! run_i q)]" .
    then show ?thesis
      using q len crit by (cases out) (simp_all add: row_after_cases)
  qed
  with inv show ?thesis
    by blast
qed

text \<open>
  The page on which the first run waits for its first reply.
\<close>

theorem one_run_at_a_time_on_the_page_witness:
  "reachable running_page \<and> single_run running_page
   \<and> 0 < length (pending running_page)
   \<and> pending running_page = [\<lparr>run_prompt = ustr ''p'', run_list = [ustr ''a''], run_i = 0\<rparr>]
   \<and> st_analyses (grader running_page) =
       [\<lparr>criterion = ustr ''a'', result = JNull, expanded = False, loading = True, error = None\<rparr>]
   \<and> st_analyses (grader (fire (Settle 0 (Resolved (JBool True))) running_page)) =
       [\<lparr>criterion = ustr ''a'', result = JBool True, expanded = False, loading = False,
         error = None\<rparr>]"
proof -
  note r = reachable_running_page
  have k: "0 < length (pending running_page)"
    by (simp add: running_page_eq)
  have p: "pending running_page = [\<lparr>run_prompt = ustr ''p'', run_list = [ustr ''a''], run_i = 0\<rparr>]"
    by (simp add: running_page_eq)
  have rows: "st_analyses (grader running_page) =
       [\<lparr>criterion = ustr ''a'', result = JNull, expanded = False, loading = True, error = None\<rparr>]"
    by (simp add: running_page_eq initial_row_def)
  note t = one_run_at_a_time_on_the_page [OF r, of 0 "Resolved (JBool True)"]
  from t have inv: "single_run running_page"
    by (rule conjunct1)
  from t k have "st_analyses (grader (fire (Settle 0 (Resolved (JBool True))) running_page)) =
      (st_analyses (grader running_page))
      [run_i (pending running_page ! 0) :=
         (st_analyses (grader running_page) ! run_i (pending running_page ! 0))
         \<lparr>result := JBool True, loading := False\<rparr>]"
    by simp
  then have after: "st_analyses (grader (fire (Settle 0 (Resolved (JBool True))) running_page)) =
       [\<lparr>criterion = ustr ''a'', result = JBool True, expanded = False, loading = False,
         error = None\<rparr>]"
    by (simp add: p rows)
  from r inv k p rows after show ?thesis
    by (intro conjI)
qed

subsection \<open>C8\<close>

text \<open>
  Claim C8. Take any environment twice, once with the request to the form service
  ending as \<open>a\<close> and once as \<open>b\<close>, rejected or answered. The route gives the same
  response both times, status and body, and the same requests leave the process. So
  for a text that parses, the verdict and the status 200 do not depend on how the
  request to the form service ends.
\<close>

theorem response_independent_of_formspree:
  "fst (POST (e\<lparr>formspree := a\<rparr>)) = fst (POST (e\<lparr>formspree := b\<rparr>))
   \<and> filter outbound (snd (POST (e\<lparr>formspree := a\<rparr>))) =
     filter outbound (snd (POST (e\<lparr>formspree := b\<rparr>)))"
proof
  have "fst (POST (e\<lparr>formspree := a\<rparr>)) = fst (POST e)"
    by (rule POST_formspree)
  also have "\<dots> = fst (POST (e\<lparr>formspree := b\<rparr>))"
    by (rule POST_formspree [symmetric])
  finally show "fst (POST (e\<lparr>formspree := a\<rparr>)) = fst (POST (e\<lparr>formspree := b\<rparr>))" .
next
  have "filter outbound (snd (POST (e\<lparr>formspree := a\<rparr>))) = filter outbound (snd (POST e))"
    by (rule POST_formspree)
  also have "\<dots> = filter outbound (snd (POST (e\<lparr>formspree := b\<rparr>)))"
    by (rule POST_formspree [symmetric])
  finally show "filter outbound (snd (POST (e\<lparr>formspree := a\<rparr>))) =
     filter outbound (snd (POST (e\<lparr>formspree := b\<rparr>)))" .
qed

text \<open>
  The second sample environment: the verdict is answered with status 200, whether
  the form service rejects or answers.
\<close>

theorem response_independent_of_formspree_witness:
  "fst (POST (verdict_env\<lparr>formspree := LoggerRejected (ustr ''fetch failed'')\<rparr>)) =
     \<lparr>status = 200, body = verdict_value\<rparr>
   \<and> fst (POST (verdict_env\<lparr>formspree := LoggerResponse 200\<rparr>)) =
     \<lparr>status = 200, body = verdict_value\<rparr>"
proof -
  have same: "verdict_env\<lparr>formspree := LoggerRejected (ustr ''fetch failed'')\<rparr> = verdict_env"
    by (simp add: verdict_env_def)
  from response_independent_of_formspree [where e = verdict_env and a = "LoggerRejected (ustr ''fetch failed'')"
      and b = "LoggerResponse 200"]
  show ?thesis
    by (simp add: same POST_verdict_env)
qed

subsection \<open>C9\<close>

text \<open>
  Claim C9. If the trimmed criteria block is not empty, then its lines, trimmed and
  without the blank ones, are at least one: a code unit that is not white space is not
  a line feed, so it lies in one of the lines, and that line is not blank. Hence the
  early return with \<open>No valid criteria found\<close> is never taken.
\<close>

theorem nonblank_criteria_give_a_criterion:
  assumes "trim (st_criteria w) \<noteq> []"
  shows "1 \<le> length (filter (\<lambda>c. length c > 0) (map trim (split_str newline (st_criteria w))))
       \<and> st_error (snd (analyze_begin w)) \<noteq> ustr ''No valid criteria found''"
proof -
  from assms have ne: "criteriaList (st_criteria w) \<noteq> []"
    by (simp add: criteriaList_Nil_iff)
  then have "1 \<le> length (criteriaList (st_criteria w))"
    by (cases "criteriaList (st_criteria w)") simp_all
  moreover have "st_error (snd (analyze_begin w)) \<noteq> ustr ''No valid criteria found''"
    using ne by (simp add: analyze_begin_def Let_def ustr_def)
  ultimately show ?thesis by (simp add: criteriaList_def)
qed

text \<open>
  The criteria of the sample page.
\<close>

theorem nonblank_criteria_give_a_criterion_witness:
  "trim (st_criteria sample_component) \<noteq> []
   \<and> 1 \<le> length (filter (\<lambda>c. length c > 0) (map trim (split_str newline (st_criteria sample_component))))
   \<and> st_error (snd (analyze_begin sample_component)) \<noteq> ustr ''No valid criteria found''"
proof -
  have h: "trim (st_criteria sample_component) \<noteq> []"
    by (simp add: sample_component_def initial_component_def trim_def
      is_white_space_def newline_def ustr_def)
  from nonblank_criteria_give_a_criterion [OF h] h show ?thesis by simp
qed

subsection \<open>C10\<close>

text \<open>
  Claim C10. A call of \<open>analyzeCriteria\<close> that fails its checks changes the error
  message of the page and nothing else: the rows of an earlier run, with their
  results and their \<open>expanded\<close> flags, and the flag \<open>loading\<close> are what they
  were.
\<close>

theorem invalid_input_changes_only_the_error:
  assumes "trim (st_prompt w) = [] \<or> trim (st_criteria w) = []
           \<or> filter (\<lambda>c. length c > 0) (map trim (split_str newline (st_criteria w))) = []"
  shows "analyzeCriteria net w = w\<lparr>st_error := st_error (analyzeCriteria net w)\<rparr>
       \<and> st_analyses (analyzeCriteria net w) = st_analyses w
       \<and> st_loading (analyzeCriteria net w) = st_loading w"
proof -
  from assms have inv: "trim (st_prompt w) = [] \<or> trim (st_criteria w) = [] \<or> criteriaList (st_criteria w) = []"
    by (simp add: criteriaList_def)
  show ?thesis
    by (simp add: analyzeCriteria_invalid [OF inv])
qed

text \<open>
  The page with a blank criteria block gets the first of the two messages.
\<close>

theorem invalid_input_changes_only_the_error_witness:
  "(trim (st_prompt blank_component) = [] \<or> trim (st_criteria blank_component) = []
     \<or> filter (\<lambda>c. length c > 0) (map trim (split_str newline (st_criteria blank_component))) = [])
   \<and> analyzeCriteria (\<lambda>i. Resolved JNull) blank_component =
       blank_component\<lparr>st_error := ustr ''Please provide both the original prompt and the rubric criteria''\<rparr>"
proof -
  have h: "trim (st_prompt blank_component) = [] \<or> trim (st_criteria blank_component) = []
     \<or> filter (\<lambda>c. length c > 0) (map trim (split_str newline (st_criteria blank_component))) = []"
    by (simp add: blank_component_def initial_component_def trim_def is_white_space_def newline_def)
  have e: "st_error (analyzeCriteria (\<lambda>i. Resolved JNull) blank_component) =
      ustr ''Please provide both the original prompt and the rubric criteria''"
    by (simp add: analyzeCriteria_def analyze_begin_def blank_component_def initial_component_def
        trim_def is_white_space_def newline_def)
  from invalid_input_changes_only_the_error [OF h, of "\<lambda>i. Resolved JNull"] h e show ?thesis by simp
qed

end
